theory Spec2Isabelle
  imports Main
begin

section \<open>The web front end of Boulder (wfe/web-front-end.go)\<close>

text \<open>
  A shallow embedding of the handlers of \<^verbatim>\<open>WebFrontEndImpl\<close>. A handler is a function
  from the handler state (the response under construction, the nonce service, the calls made
  to the registration authority) to the handler state. The collaborators (\<^verbatim>\<open>wfe.RA\<close>,
  \<^verbatim>\<open>wfe.SA\<close>) and the libraries the file imports (go-jose, encoding/json, crypto/x509,
  package core) are not part of the file: they are fields of records of functions, and every
  theorem holds for all of them. Logging (\<^verbatim>\<open>wfe.log\<close>) and the statistics counters
  (\<^verbatim>\<open>wfe.Stats\<close>) influence no response and are left out, and with them the \<^verbatim>\<open>debug\<close>
  argument of \<^verbatim>\<open>sendError\<close>, which is only logged.
\<close>

subsection \<open>Data\<close>

type_synonym bytes = string

text \<open>
  Go error values. The error types of package core that \<^verbatim>\<open>statusCodeFromError\<close> switches on
  are string types; \<^verbatim>\<open>sql.ErrNoRows\<close> is a value the handlers compare against; every other
  error (\<^verbatim>\<open>errors.New\<close>, a library's error) is \<open>OtherError\<close> with its message.
\<close>

datatype error =
    MalformedRequestError string
  | NotSupportedError string
  | SyntaxError string
  | UnauthorizedError string
  | NotFoundError string
  | SignatureValidationError string
  | InternalServerError string
  | ErrNoRows
  | OtherError string

fun Error :: "error \<Rightarrow> string" where
  "Error (MalformedRequestError m) = m"
| "Error (NotSupportedError m) = m"
| "Error (SyntaxError m) = m"
| "Error (UnauthorizedError m) = m"
| "Error (NotFoundError m) = m"
| "Error (SignatureValidationError m) = m"
| "Error (InternalServerError m) = m"
| "Error ErrNoRows = ''sql: no rows in result set''"
| "Error (OtherError m) = m"

abbreviation errors_New :: "string \<Rightarrow> error" where
  "errors_New m \<equiv> OtherError m"

text \<open>A panic of the Go runtime (a nil dereference, an index out of range) ends the handler.\<close>

datatype 'a outcome = Panic | Return 'a

text \<open>The status codes of net/http that the file uses.\<close>

abbreviation StatusOK :: int where "StatusOK \<equiv> 200"
abbreviation StatusCreated :: int where "StatusCreated \<equiv> 201"
abbreviation StatusAccepted :: int where "StatusAccepted \<equiv> 202"
abbreviation StatusBadRequest :: int where "StatusBadRequest \<equiv> 400"
abbreviation StatusForbidden :: int where "StatusForbidden \<equiv> 403"
abbreviation StatusNotFound :: int where "StatusNotFound \<equiv> 404"
abbreviation StatusMethodNotAllowed :: int where "StatusMethodNotAllowed \<equiv> 405"
abbreviation StatusConflict :: int where "StatusConflict \<equiv> 409"
abbreviation StatusPreconditionFailed :: int where "StatusPreconditionFailed \<equiv> 412"
abbreviation StatusInternalServerError :: int where "StatusInternalServerError \<equiv> 500"
abbreviation StatusNotImplemented :: int where "StatusNotImplemented \<equiv> 501"

text \<open>The path segments.\<close>

abbreviation RegPath :: string where "RegPath \<equiv> ''/acme/reg/''"
abbreviation AuthzPath :: string where "AuthzPath \<equiv> ''/acme/authz/''"
abbreviation CertPath :: string where "CertPath \<equiv> ''/acme/cert/''"
abbreviation IssuerPath :: string where "IssuerPath \<equiv> ''/acme/issuer-cert''"

text \<open>
  The structs of package core, go-jose, crypto/x509 and net/url, with the fields the front
  end reads or writes. A JSON web key and a public key are opaque.
\<close>

type_synonym JsonWebKey = string
type_synonym PublicKey = string

record Registration =
  reg_ID :: int
  reg_Key :: JsonWebKey
  reg_Contact :: "string list"
  reg_Agreement :: string

text \<open>\<^verbatim>\<open>core.Registration{}\<close>, the zero value.\<close>

definition emptyRegistration :: Registration where
  "emptyRegistration = \<lparr>reg_ID = 0, reg_Key = [], reg_Contact = [], reg_Agreement = []\<rparr>"

record URL =
  Path :: string
  RawQuery :: string

record Challenge =
  chall_Type :: string
  chall_Status :: string
  chall_URI :: URL
  chall_Token :: string

record Authorization =
  authz_ID :: string
  authz_RegistrationID :: int
  authz_Identifier :: string
  authz_Status :: string
  authz_Challenges :: "Challenge list"

record Certificate =
  cert_RegistrationID :: int
  cert_DER :: bytes

record x509_Certificate =
  SerialNumber :: int
  x509_PublicKey :: PublicKey
  Raw :: bytes

datatype OCSPStatus = OCSPStatusGood | OCSPStatusRevoked

record CertificateStatus =
  Status :: OCSPStatus

record RevokeRequest =
  CertificateDER :: bytes

type_synonym CertificateRequest = bytes

record JoseHeader =
  Nonce :: string

record Signature =
  Header_JsonWebKey :: "JsonWebKey option"
  sig_Signature :: bytes

record JsonWebSignature =
  jws_payload :: bytes
  Signatures :: "Signature list"

text \<open>
  A request: its method, its URL and its body, which is nil, fails to be read, or is read
  whole by \<^verbatim>\<open>ioutil.ReadAll\<close>.
\<close>

datatype RequestBody = NilBody | ReadFails error | BodyBytes bytes

record Request =
  Method :: string
  req_URL :: URL
  Body :: RequestBody

record problem =
  Type :: string
  Detail :: string

abbreviation MalformedProblem :: string where
  "MalformedProblem \<equiv> ''urn:acme:error:malformed''"
abbreviation UnauthorizedProblem :: string where
  "UnauthorizedProblem \<equiv> ''urn:acme:error:unauthorized''"
abbreviation ServerInternalProblem :: string where
  "ServerInternalProblem \<equiv> ''urn:acme:error:serverInternal''"

subsection \<open>Collaborators and libraries\<close>

record RegistrationAuthority =
  RA_UpdateRegistration :: "Registration \<Rightarrow> Registration \<Rightarrow> error + Registration"
  RA_UpdateAuthorization :: "Authorization \<Rightarrow> nat \<Rightarrow> Challenge \<Rightarrow> error + Authorization"
  RA_NewCertificate :: "CertificateRequest \<Rightarrow> int \<Rightarrow> error + Certificate"
  RA_RevokeCertificate :: "x509_Certificate \<Rightarrow> error option"

record StorageGetter =
  GetRegistrationByKey :: "JsonWebKey \<Rightarrow> error + Registration"
  GetAuthorization :: "string \<Rightarrow> error + Authorization"
  GetCertificate :: "string \<Rightarrow> error + Certificate"
  GetCertificateByShortSerial :: "string \<Rightarrow> error + Certificate"
  GetCertificateStatus :: "string \<Rightarrow> error + CertificateStatus"

record Libraries =
  jose_ParseSigned :: "string \<Rightarrow> error + JsonWebSignature"
  jose_Verify :: "JsonWebSignature \<Rightarrow> JsonWebKey option \<Rightarrow> error + (bytes \<times> JoseHeader)"
  json_Marshal_problem :: "problem \<Rightarrow> error + bytes"
  json_Marshal_Registration :: "Registration \<Rightarrow> error + bytes"
  json_Marshal_Challenge :: "Challenge \<Rightarrow> error + bytes"
  json_Marshal_Authorization :: "Authorization \<Rightarrow> error + bytes"
  json_Unmarshal_Registration :: "bytes \<Rightarrow> error + Registration"
  json_Unmarshal_Challenge :: "bytes \<Rightarrow> error + Challenge"
  json_Unmarshal_RevokeRequest :: "bytes \<Rightarrow> error + RevokeRequest"
  json_Unmarshal_CertificateRequest :: "bytes \<Rightarrow> error + CertificateRequest"
  x509_ParseCertificate :: "bytes \<Rightarrow> error + x509_Certificate"
  url_String :: "URL \<Rightarrow> string"
  core_SerialToString :: "int \<Rightarrow> string"
  core_KeyDigestEquals :: "JsonWebKey \<Rightarrow> PublicKey \<Rightarrow> bool"

record WebFrontEndImpl =
  RA :: RegistrationAuthority
  SA :: StorageGetter
  lib :: Libraries
  BaseURL :: string
  NewReg :: string
  RegBase :: string
  NewAuthz :: string
  AuthzBase :: string
  NewCert :: string
  CertBase :: string
  SubscriberAgreementURL :: string

text \<open>
  \<^verbatim>\<open>HandlePaths\<close> derives the resource URLs from the base URL. (It also registers the
  handlers with the HTTP engine, which is routing and not modelled.)
\<close>

definition HandlePaths :: "WebFrontEndImpl \<Rightarrow> WebFrontEndImpl" where
  "HandlePaths wfe =
     wfe\<lparr>NewReg := BaseURL wfe @ ''/acme/new-reg'',
         RegBase := BaseURL wfe @ RegPath,
         NewAuthz := BaseURL wfe @ ''/acme/new-authz'',
         AuthzBase := BaseURL wfe @ AuthzPath,
         NewCert := BaseURL wfe @ ''/acme/new-cert'',
         CertBase := BaseURL wfe @ CertPath\<rparr>"

subsection \<open>The nonce service\<close>

text \<open>
  Modelled from the spec: \<^verbatim>\<open>core.NonceService\<close> (core/nonce.go) is not among the source
  files. The spec's Nonce Registry: \<open>issue\<close> produces a fresh, never-before-issued token
  and records it as outstanding and valid; \<open>consume\<close> returns true and invalidates the
  token if it is currently valid, and returns false without side effect when the token is
  unknown, already consumed or malformed. The registry counts the tokens it has issued; the
  token of count \<open>n\<close> is an opaque string that names \<open>n\<close>.
\<close>

record NonceService =
  issued :: nat
  outstanding :: "string list"

definition nonceToken :: "nat \<Rightarrow> string" where
  "nonceToken n = replicate (Suc n) CHR ''n''"

definition NewNonceService :: NonceService where
  "NewNonceService = \<lparr>issued = 0, outstanding = []\<rparr>"

text \<open>Modelled from the spec: \<^verbatim>\<open>NonceService.Nonce()\<close>, the spec's \<open>issue\<close>.\<close>

definition NonceService_Nonce :: "NonceService \<Rightarrow> string \<times> NonceService" where
  "NonceService_Nonce ns =
     (nonceToken (issued ns),
      \<lparr>issued = Suc (issued ns), outstanding = nonceToken (issued ns) # outstanding ns\<rparr>)"

text \<open>Modelled from the spec: \<^verbatim>\<open>NonceService.Valid(nonce)\<close>, the spec's \<open>consume\<close>.\<close>

definition NonceService_Valid :: "NonceService \<Rightarrow> string \<Rightarrow> bool \<times> NonceService" where
  "NonceService_Valid ns nonce =
     (if nonce \<in> set (outstanding ns)
      then (True, ns\<lparr>outstanding := removeAll nonce (outstanding ns)\<rparr>)
      else (False, ns))"

text \<open>The nonce service after a token has been consumed.\<close>

definition consumed :: "string \<Rightarrow> NonceService \<Rightarrow> NonceService" where
  "consumed nonce ns = ns\<lparr>outstanding := removeAll nonce (outstanding ns)\<rparr>"

text \<open>
  A history of the nonce service: every response issues a token
  (\<^verbatim>\<open>sendStandardHeaders\<close>) and every signed request that reaches the nonce check tries to
  consume one.
\<close>

datatype NonceOp = Issue | Consume string

fun applyNonceOp :: "NonceOp \<Rightarrow> NonceService \<Rightarrow> NonceService" where
  "applyNonceOp Issue ns = snd (NonceService_Nonce ns)"
| "applyNonceOp (Consume token) ns = snd (NonceService_Valid ns token)"

definition runNonceOps :: "NonceOp list \<Rightarrow> NonceService \<Rightarrow> NonceService" where
  "runNonceOps ops ns = fold applyNonceOp ops ns"

text \<open>Every outstanding token is one the service has issued.\<close>

definition issuedOnly :: "NonceService \<Rightarrow> bool" where
  "issuedOnly ns = list_all (\<lambda>token. token \<in> set (map nonceToken [0..<issued ns])) (outstanding ns)"

text \<open>The token of count \<open>k\<close> has been issued and is no longer outstanding.\<close>

definition spent :: "nat \<Rightarrow> NonceService \<Rightarrow> bool" where
  "spent k ns = (issuedOnly ns \<and> k < issued ns \<and> nonceToken k \<notin> set (outstanding ns))"

subsection \<open>Responses and the handler state\<close>

text \<open>
  \<^verbatim>\<open>http.ResponseWriter\<close>: the header map (\<open>Set\<close> replaces the values of a key,
  \<open>Add\<close> appends one), the status code (the first \<^verbatim>\<open>WriteHeader\<close> wins; a \<^verbatim>\<open>Write\<close>
  before any \<^verbatim>\<open>WriteHeader\<close> sends 200) and the body written so far.
\<close>

record Response =
  Header :: "(string \<times> string) list"
  Code :: "int option"
  Written :: bytes

definition Header_Set :: "string \<Rightarrow> string \<Rightarrow> Response \<Rightarrow> Response" where
  "Header_Set k v r = r\<lparr>Header := filter (\<lambda>kv. fst kv \<noteq> k) (Header r) @ [(k, v)]\<rparr>"

definition Header_Add :: "string \<Rightarrow> string \<Rightarrow> Response \<Rightarrow> Response" where
  "Header_Add k v r = r\<lparr>Header := Header r @ [(k, v)]\<rparr>"

definition WriteHeader :: "int \<Rightarrow> Response \<Rightarrow> Response" where
  "WriteHeader c r = (case Code r of None \<Rightarrow> r\<lparr>Code := Some c\<rparr> | Some _ \<Rightarrow> r)"

definition Write :: "bytes \<Rightarrow> Response \<Rightarrow> Response" where
  "Write b r = (let r' = WriteHeader StatusOK r in r'\<lparr>Written := Written r' @ b\<rparr>)"

text \<open>The values of a header, in the order they were added (\<^verbatim>\<open>Header()[key]\<close>).\<close>

definition Header_Values :: "string \<Rightarrow> Response \<Rightarrow> string list" where
  "Header_Values k r = map snd (filter (\<lambda>kv. fst kv = k) (Header r))"

definition NewResponse :: Response where
  "NewResponse = \<lparr>Header = [], Code = None, Written = []\<rparr>"

text \<open>The calls a handler makes to the registration authority, in order.\<close>

datatype RACall =
    CallUpdateRegistration Registration Registration
  | CallUpdateAuthorization Authorization nat Challenge
  | CallNewCertificate CertificateRequest int
  | CallRevokeCertificate x509_Certificate

record State =
  response :: Response
  nonceService :: NonceService
  raCalls :: "RACall list"
  panicked :: bool

definition respond :: "(Response \<Rightarrow> Response) \<Rightarrow> State \<Rightarrow> State" where
  "respond f s = s\<lparr>response := f (response s)\<rparr>"

definition callRA :: "RACall \<Rightarrow> State \<Rightarrow> State" where
  "callRA c s = s\<lparr>raCalls := raCalls s @ [c]\<rparr>"

definition panic :: "State \<Rightarrow> State" where
  "panic s = s\<lparr>panicked := True\<rparr>"

subsection \<open>Helpers of the file\<close>

fun statusCodeFromError :: "error \<Rightarrow> int" where
  "statusCodeFromError (MalformedRequestError _) = StatusBadRequest"
| "statusCodeFromError (NotSupportedError _) = StatusNotImplemented"
| "statusCodeFromError (SyntaxError _) = StatusBadRequest"
| "statusCodeFromError (UnauthorizedError _) = StatusForbidden"
| "statusCodeFromError (NotFoundError _) = StatusNotFound"
| "statusCodeFromError (SignatureValidationError _) = StatusPreconditionFailed"
| "statusCodeFromError (InternalServerError _) = StatusInternalServerError"
| "statusCodeFromError _ = StatusInternalServerError"

definition sendAllow :: "string \<Rightarrow> State \<Rightarrow> State" where
  "sendAllow methods s = respond (Header_Set ''Allow'' methods) s"

definition sendStandardHeaders :: "State \<Rightarrow> State" where
  "sendStandardHeaders s =
     (let (nonce, ns) = NonceService_Nonce (nonceService s)
      in respond (Header_Set ''Access-Control-Allow-Origin'' ''*'')
           (respond (Header_Set ''Replay-Nonce'' nonce) (s\<lparr>nonceService := ns\<rparr>)))"

text \<open>
  The local variable \<^verbatim>\<open>problem\<close> of \<^verbatim>\<open>sendError\<close> after its switch on the status code.
  The switch has no default case: a code it does not list leaves the type empty.
\<close>

definition sendError_problem :: "string \<Rightarrow> int \<Rightarrow> problem" where
  "sendError_problem details code =
     (if code = StatusForbidden then \<lparr>Type = UnauthorizedProblem, Detail = details\<rparr>
      else if code = StatusConflict \<or> code = StatusMethodNotAllowed
              \<or> code = StatusNotFound \<or> code = StatusBadRequest
        then \<lparr>Type = MalformedProblem, Detail = details\<rparr>
      else if code = StatusInternalServerError
        then \<lparr>Type = ServerInternalProblem, Detail = details\<rparr>
      else \<lparr>Type = [], Detail = details\<rparr>)"

definition sendError :: "WebFrontEndImpl \<Rightarrow> string \<Rightarrow> int \<Rightarrow> State \<Rightarrow> State" where
  "sendError wfe details code s =
     (let problemDoc =
            (case json_Marshal_problem (lib wfe) (sendError_problem details code) of
               Inl err \<Rightarrow> ''{'' @ [CHR 0x22] @ ''detail'' @ [CHR 0x22] @ '': '' @ [CHR 0x22]
                            @ ''Problem marshalling error message.'' @ [CHR 0x22] @ ''}''
             | Inr doc \<Rightarrow> doc)
      in respond (Write problemDoc)
           (respond (WriteHeader code)
              (respond (Header_Set ''Content-Type'' ''application/problem+json'') s)))"

definition link :: "string \<Rightarrow> string \<Rightarrow> string" where
  "link url relation = ''<'' @ url @ ''>;rel='' @ [CHR 0x22] @ relation @ [CHR 0x22]"

subsection \<open>verifyPOST\<close>

text \<open>
  The result of \<^verbatim>\<open>verifyPOST\<close>: an error, or the payload, the key of the signature and the
  registration; together with the nonce service after the call. Dereferencing the key
  (\<^verbatim>\<open>*key\<close>) panics when the signature's header carries no key.
\<close>

type_synonym verified = "bytes \<times> JsonWebKey \<times> Registration"

definition verifyPOST ::
  "WebFrontEndImpl \<Rightarrow> NonceService \<Rightarrow> Request \<Rightarrow> bool \<Rightarrow> (error + verified) outcome \<times> NonceService"
where
  "verifyPOST wfe ns request regCheck =
     (case Body request of
        NilBody \<Rightarrow> (Return (Inl (errors_New ''No body on POST'')), ns)
      | ReadFails err \<Rightarrow> (Return (Inl err), ns)
      | BodyBytes body \<Rightarrow>
          (case jose_ParseSigned (lib wfe) body of
             Inl err \<Rightarrow> (Return (Inl err), ns)
           | Inr parsedJws \<Rightarrow>
               if length (Signatures parsedJws) > 1
                 then (Return (Inl (errors_New ''Too many signatures on POST'')), ns)
               else if length (Signatures parsedJws) = 0
                 then (Return (Inl (errors_New ''POST not signed'')), ns)
               else
                 (let key = Header_JsonWebKey (Signatures parsedJws ! 0) in
                  case jose_Verify (lib wfe) parsedJws key of
                    Inl err \<Rightarrow> (Return (Inl err), ns)
                  | Inr (payload, header) \<Rightarrow>
                      if length (Nonce header) = 0
                        then (Return (Inl (errors_New ''JWS has no anti-replay nonce'')), ns)
                      else
                        (case NonceService_Valid ns (Nonce header) of
                           (False, ns') \<Rightarrow>
                             (Return (Inl (errors_New ''JWS has invalid anti-replay nonce'')), ns')
                         | (True, ns') \<Rightarrow>
                             (case key of
                                None \<Rightarrow> (Panic, ns')
                              | Some k \<Rightarrow>
                                  (case GetRegistrationByKey (SA wfe) k of
                                     Inl err \<Rightarrow>
                                       if regCheck then (Return (Inl err), ns')
                                       else (Return (Inr (payload, k, emptyRegistration)), ns')
                                   | Inr reg \<Rightarrow> (Return (Inr (payload, k, reg)), ns')))))))"

text \<open>A handler's call of \<^verbatim>\<open>verifyPOST\<close>: the nonce service of the state is the one used.\<close>

definition verifyPOST_call ::
  "WebFrontEndImpl \<Rightarrow> Request \<Rightarrow> bool \<Rightarrow> State \<Rightarrow> (error + verified) outcome \<times> State"
where
  "verifyPOST_call wfe request regCheck s =
     (case verifyPOST wfe (nonceService s) request regCheck of
        (r, ns) \<Rightarrow> (r, s\<lparr>nonceService := ns\<rparr>))"

text \<open>
  The request is a signed envelope whose verified header carries the given nonce: the body
  parses with exactly one signature, and the signature verifies against the key of its
  header.
\<close>

definition carries :: "WebFrontEndImpl \<Rightarrow> Request \<Rightarrow> string \<Rightarrow> bool" where
  "carries wfe request nonce =
     (case Body request of
        BodyBytes body \<Rightarrow>
          (case jose_ParseSigned (lib wfe) body of
             Inr parsedJws \<Rightarrow>
               length (Signatures parsedJws) = 1
               \<and> (case jose_Verify (lib wfe) parsedJws
                          (Header_JsonWebKey (Signatures parsedJws ! 0)) of
                    Inr (payload, header) \<Rightarrow> Nonce header = nonce
                  | Inl err \<Rightarrow> False)
           | Inl err \<Rightarrow> False)
      | _ \<Rightarrow> False)"

subsection \<open>Identifiers in paths\<close>

text \<open>
  \<^verbatim>\<open>parseIDFromPath\<close> deletes the match of the regular expression \<^verbatim>\<open>^.*/\<close>: the longest
  prefix that ends in a slash and has no newline before that slash (\<^verbatim>\<open>.\<close> does not match
  a newline). Without such a prefix the path is returned whole.
\<close>

definition parseIDFromPath :: "string \<Rightarrow> string" where
  "parseIDFromPath path =
     (let line = takeWhile (\<lambda>c. c \<noteq> CHR 0x0A) path
      in if CHR ''/'' \<in> set line
         then drop (length line - length (takeWhile (\<lambda>c. c \<noteq> CHR ''/'') (rev line))) path
         else path)"

text \<open>
  \<^verbatim>\<open>strconv.ParseInt(s, 10, 64)\<close>: an optional sign, then one or more decimal digits; the
  value must fit a signed 64-bit integer.
\<close>

definition isDigit :: "char \<Rightarrow> bool" where
  "isDigit c = (c \<in> set ''0123456789'')"

fun digitsValue :: "nat \<Rightarrow> string \<Rightarrow> nat" where
  "digitsValue acc [] = acc"
| "digitsValue acc (c # cs) = digitsValue (acc * 10 + (of_char c - 48)) cs"

definition ParseInt :: "string \<Rightarrow> error + int" where
  "ParseInt s =
     (let neg = (s \<noteq> [] \<and> hd s = CHR ''-'');
          digits = (if s \<noteq> [] \<and> (hd s = CHR ''+'' \<or> hd s = CHR ''-'') then tl s else s)
      in if digits = [] \<or> \<not> list_all isDigit digits
           then Inl (errors_New (''strconv.ParseInt: parsing '' @ s @ '': invalid syntax''))
         else
           (let un = digitsValue 0 digits
            in if \<not> neg \<and> un \<ge> 2 ^ 63 \<or> neg \<and> un > 2 ^ 63
                 then Inl (errors_New (''strconv.ParseInt: parsing '' @ s @ '': value out of range''))
               else Inr (if neg then - int un else int un)))"

text \<open>
  \<^verbatim>\<open>fmt.Sprintf("%016x", v)\<close> for a \<^verbatim>\<open>*big.Int\<close>: the sign of a negative value, then
  zeros up to a width of 16 in all, then the lower-case hexadecimal digits of the magnitude.
  The width is a minimum: a longer number is written whole.
\<close>

definition hexDigit :: "nat \<Rightarrow> char" where
  "hexDigit d = ''0123456789abcdef'' ! d"

fun hexDigits :: "nat \<Rightarrow> string" where
  "hexDigits n = (if n < 16 then [hexDigit n] else hexDigits (n div 16) @ [hexDigit (n mod 16)])"

declare hexDigits.simps [simp del]

definition Sprintf_016x :: "int \<Rightarrow> string" where
  "Sprintf_016x v =
     (let sign = (if v < 0 then ''-'' else []);
          digits = hexDigits (nat \<bar>v\<bar>)
      in sign @ replicate (16 - (length sign + length digits)) CHR ''0'' @ digits)"

text \<open>\<^verbatim>\<open>serial.Rsh(serial, 64)\<close>: an arithmetic shift, rounding down.\<close>

definition Rsh64 :: "int \<Rightarrow> int" where
  "Rsh64 serial = serial div 2 ^ 64"

text \<open>The regular expression \<^verbatim>\<open>^[0-9a-f]+$\<close>.\<close>

definition isHex :: "char \<Rightarrow> bool" where
  "isHex c = (c \<in> set ''0123456789abcdef'')"

definition allHex :: "string \<Rightarrow> bool" where
  "allHex s = (s \<noteq> [] \<and> list_all isHex s)"



definition HasPrefix :: "string \<Rightarrow> string \<Rightarrow> bool" where
  "HasPrefix s p = (take (length p) s = p)"

subsection \<open>The handlers\<close>

definition methodNotAllowed :: "WebFrontEndImpl \<Rightarrow> string \<Rightarrow> State \<Rightarrow> State" where
  "methodNotAllowed wfe methods s =
     sendError wfe ''Method not allowed'' StatusMethodNotAllowed (sendAllow methods s)"

text \<open>What the handlers that require a registration answer when \<^verbatim>\<open>verifyPOST\<close> fails.\<close>

definition verifyFailed :: "WebFrontEndImpl \<Rightarrow> error \<Rightarrow> State \<Rightarrow> State" where
  "verifyFailed wfe err s =
     (if err = ErrNoRows
      then sendError wfe ''No registration exists matching provided key'' StatusForbidden s
      else sendError wfe ''Unable to read/verify body'' StatusBadRequest s)"

definition agreementMismatch :: "WebFrontEndImpl \<Rightarrow> string \<Rightarrow> string" where
  "agreementMismatch wfe agreement =
     ''Provided agreement URL ['' @ agreement @ ''] does not match current agreement URL [''
       @ SubscriberAgreementURL wfe @ '']''"

definition Registration :: "WebFrontEndImpl \<Rightarrow> Request \<Rightarrow> State \<Rightarrow> State" where
  "Registration wfe request s0 =
     (let s = sendStandardHeaders s0 in
      if Method request \<noteq> ''POST'' then methodNotAllowed wfe ''POST'' s
      else
        (case verifyPOST_call wfe request True s of
           (Panic, s) \<Rightarrow> panic s
         | (Return (Inl err), s) \<Rightarrow> verifyFailed wfe err s
         | (Return (Inr (body, _, currReg)), s) \<Rightarrow>
             (case ParseInt (parseIDFromPath (Path (req_URL request))) of
                Inl err \<Rightarrow> sendError wfe ''Registration ID must be an integer'' StatusBadRequest s
              | Inr pathID \<Rightarrow>
                  if pathID \<le> 0
                    then sendError wfe ''Registration ID must be a positive non-zero integer''
                           StatusBadRequest s
                  else if pathID \<noteq> reg_ID currReg
                    then sendError wfe ''Request signing key did not match registration key''
                           StatusForbidden s
                  else
                    (case json_Unmarshal_Registration (lib wfe) body of
                       Inl err \<Rightarrow>
                         sendError wfe ''Error unmarshaling registration'' StatusBadRequest s
                     | Inr update \<Rightarrow>
                         if length (reg_Agreement update) > 0
                            \<and> reg_Agreement update \<noteq> SubscriberAgreementURL wfe
                           then sendError wfe (agreementMismatch wfe (reg_Agreement update))
                                  StatusBadRequest s
                         else
                           (let update = update\<lparr>reg_Key := reg_Key currReg\<rparr>;
                                s = callRA (CallUpdateRegistration currReg update) s
                            in case RA_UpdateRegistration (RA wfe) currReg update of
                                 Inl err \<Rightarrow>
                                   sendError wfe ''Unable to update registration''
                                     (statusCodeFromError err) s
                               | Inr updatedReg \<Rightarrow>
                                   (case json_Marshal_Registration (lib wfe) updatedReg of
                                      Inl err \<Rightarrow>
                                        sendError wfe ''Failed to marshal registration''
                                          StatusInternalServerError s
                                    | Inr jsonReply \<Rightarrow>
                                        respond (Write jsonReply)
                                          (respond (WriteHeader StatusAccepted)
                                             (respond
                                                (Header_Set ''Content-Type'' ''application/json'')
                                                s))))))))"

text \<open>The loop of \<^verbatim>\<open>challenge\<close> that looks the request's path and query up: the first match.\<close>

fun findChallenge :: "Challenge list \<Rightarrow> URL \<Rightarrow> nat \<Rightarrow> nat option" where
  "findChallenge [] u i = None"
| "findChallenge (c # cs) u i =
     (if Path (chall_URI c) = Path u \<and> RawQuery (chall_URI c) = RawQuery u then Some i
      else findChallenge cs u (Suc i))"

definition writeChallenge ::
  "WebFrontEndImpl \<Rightarrow> Authorization \<Rightarrow> Challenge \<Rightarrow> bytes \<Rightarrow> State \<Rightarrow> State"
where
  "writeChallenge wfe authz challenge jsonReply s =
     respond (Write jsonReply)
       (respond (WriteHeader StatusAccepted)
          (respond (Header_Add ''Link'' (link (AuthzBase wfe @ authz_ID authz) ''up''))
             (respond (Header_Set ''Content-Type'' ''application/json'')
                (respond (Header_Add ''Location'' (url_String (lib wfe) (chall_URI challenge)))
                   s))))"

definition challenge :: "WebFrontEndImpl \<Rightarrow> Authorization \<Rightarrow> Request \<Rightarrow> State \<Rightarrow> State" where
  "challenge wfe authz request s0 =
     (let s = sendStandardHeaders s0 in
      if Method request \<noteq> ''GET'' \<and> Method request \<noteq> ''POST''
        then methodNotAllowed wfe ''GET, POST'' s
      else
        (case findChallenge (authz_Challenges authz) (req_URL request) 0 of
           None \<Rightarrow> sendError wfe ''Unable to find challenge'' StatusNotFound s
         | Some challengeIndex \<Rightarrow>
             if Method request = ''GET'' then
               (let challenge = authz_Challenges authz ! challengeIndex
                in case json_Marshal_Challenge (lib wfe) challenge of
                     Inl err \<Rightarrow>
                       sendError wfe ''Failed to marshal challenge'' StatusInternalServerError s
                   | Inr jsonReply \<Rightarrow> writeChallenge wfe authz challenge jsonReply s)
             else if Method request = ''POST'' then
               (case verifyPOST_call wfe request True s of
                  (Panic, s) \<Rightarrow> panic s
                | (Return (Inl err), s) \<Rightarrow> verifyFailed wfe err s
                | (Return (Inr (body, _, currReg)), s) \<Rightarrow>
                    if reg_Agreement currReg = []
                      then sendError wfe
                             ''Must agree to subscriber agreement before any further actions''
                             StatusForbidden s
                    else if reg_ID currReg \<noteq> authz_RegistrationID authz
                      then sendError wfe
                             ''User registration ID doesn't match registration ID in authorization''
                             StatusForbidden s
                    else
                      (case json_Unmarshal_Challenge (lib wfe) body of
                         Inl err \<Rightarrow>
                           sendError wfe ''Error unmarshaling challenge response''
                             StatusBadRequest s
                       | Inr challengeResponse \<Rightarrow>
                           (let s = callRA
                                  (CallUpdateAuthorization authz challengeIndex challengeResponse) s
                            in case RA_UpdateAuthorization (RA wfe) authz challengeIndex
                                      challengeResponse of
                                 Inl err \<Rightarrow>
                                   sendError wfe ''Unable to update authorization''
                                     (statusCodeFromError err) s
                               | Inr updatedAuthz \<Rightarrow>
                                   if challengeIndex \<ge> length (authz_Challenges updatedAuthz)
                                     then panic s
                                   else
                                     (let challenge =
                                            authz_Challenges updatedAuthz ! challengeIndex
                                      in case json_Marshal_Challenge (lib wfe) challenge of
                                           Inl err \<Rightarrow>
                                             sendError wfe ''Failed to marshal challenge''
                                               StatusInternalServerError s
                                         | Inr jsonReply \<Rightarrow>
                                             writeChallenge wfe authz challenge jsonReply s))))
             else methodNotAllowed wfe ''GET, POST'' s))"

definition Authorization :: "WebFrontEndImpl \<Rightarrow> Request \<Rightarrow> State \<Rightarrow> State" where
  "Authorization wfe request s0 =
     (let s = sendStandardHeaders s0 in
      if Method request \<noteq> ''GET'' \<and> Method request \<noteq> ''POST''
        then methodNotAllowed wfe ''GET, POST'' s
      else
        (case GetAuthorization (SA wfe) (parseIDFromPath (Path (req_URL request))) of
           Inl err \<Rightarrow> sendError wfe ''Unable to find authorization'' StatusNotFound s
         | Inr authz \<Rightarrow>
             if length (RawQuery (req_URL request)) \<noteq> 0 then challenge wfe authz request s
             else if Method request = ''GET'' then
               (let authz = authz\<lparr>authz_ID := [], authz_RegistrationID := 0\<rparr>
                in case json_Marshal_Authorization (lib wfe) authz of
                     Inl err \<Rightarrow>
                       sendError wfe ''Failed to marshal authz'' StatusInternalServerError s
                   | Inr jsonReply \<Rightarrow>
                       respond (Write jsonReply)
                         (respond (WriteHeader StatusOK)
                            (respond (Header_Set ''Content-Type'' ''application/json'')
                               (respond (Header_Add ''Link'' (link (NewCert wfe) ''next'')) s))))
             else methodNotAllowed wfe ''GET, POST'' s))"

definition RevokeCertificate :: "WebFrontEndImpl \<Rightarrow> Request \<Rightarrow> State \<Rightarrow> State" where
  "RevokeCertificate wfe request s0 =
     (let s = sendStandardHeaders s0 in
      if Method request \<noteq> ''POST'' then methodNotAllowed wfe ''POST'' s
      else
        (case verifyPOST_call wfe request False s of
           (Panic, s) \<Rightarrow> panic s
         | (Return (Inl err), s) \<Rightarrow>
             sendError wfe ''Unable to read/verify body'' StatusBadRequest s
         | (Return (Inr (body, requestKey, registration)), s) \<Rightarrow>
             (case json_Unmarshal_RevokeRequest (lib wfe) body of
                Inl err \<Rightarrow> sendError wfe ''Unable to read/verify body'' StatusBadRequest s
              | Inr revokeRequest \<Rightarrow>
                  (case x509_ParseCertificate (lib wfe) (CertificateDER revokeRequest) of
                     Inl err \<Rightarrow> sendError wfe ''Unable to read/verify body'' StatusBadRequest s
                   | Inr providedCert \<Rightarrow>
                       (let serial = core_SerialToString (lib wfe) (SerialNumber providedCert)
                        in case GetCertificate (SA wfe) serial of
                             Inl err \<Rightarrow> sendError wfe ''No such certificate'' StatusNotFound s
                           | Inr cert \<Rightarrow>
                               if cert_DER cert \<noteq> CertificateDER revokeRequest
                                 then sendError wfe ''No such certificate'' StatusNotFound s
                               else
                                 (case x509_ParseCertificate (lib wfe) (cert_DER cert) of
                                    Inl err \<Rightarrow>
                                      sendError wfe ''Invalid certificate''
                                        StatusInternalServerError s
                                  | Inr parsedCertificate \<Rightarrow>
                                      (case GetCertificateStatus (SA wfe) serial of
                                         Inl err \<Rightarrow>
                                           sendError wfe ''Certificate status not yet available''
                                             StatusNotFound s
                                       | Inr certStatus \<Rightarrow>
                                           if Status certStatus = OCSPStatusRevoked
                                             then sendError wfe ''Certificate already revoked''
                                                    StatusConflict s
                                           else if \<not> (core_KeyDigestEquals (lib wfe) requestKey
                                                          (x509_PublicKey parsedCertificate)
                                                        \<or> reg_ID registration
                                                            = cert_RegistrationID cert)
                                             then sendError wfe
                                                    ''Revocation request must be signed by private key of cert to be revoked''
                                                    StatusForbidden s
                                           else
                                             (let s = callRA
                                                    (CallRevokeCertificate parsedCertificate) s
                                              in case RA_RevokeCertificate (RA wfe)
                                                        parsedCertificate of
                                                   Some err \<Rightarrow>
                                                     sendError wfe ''Failed to revoke certificate''
                                                       (statusCodeFromError err) s
                                                 | None \<Rightarrow>
                                                     respond (WriteHeader StatusOK) s))))))))"

definition NewCertificate :: "WebFrontEndImpl \<Rightarrow> Request \<Rightarrow> State \<Rightarrow> State" where
  "NewCertificate wfe request s0 =
     (let s = sendStandardHeaders s0 in
      if Method request \<noteq> ''POST'' then methodNotAllowed wfe ''POST'' s
      else
        (case verifyPOST_call wfe request True s of
           (Panic, s) \<Rightarrow> panic s
         | (Return (Inl err), s) \<Rightarrow> verifyFailed wfe err s
         | (Return (Inr (body, key, reg)), s) \<Rightarrow>
             if reg_Agreement reg = []
               then sendError wfe
                      ''Must agree to subscriber agreement before any further actions''
                      StatusForbidden s
             else
               (case json_Unmarshal_CertificateRequest (lib wfe) body of
                  Inl err \<Rightarrow>
                    sendError wfe ''Error unmarshaling certificate request'' StatusBadRequest s
                | Inr init \<Rightarrow>
                    (let s = callRA (CallNewCertificate init (reg_ID reg)) s
                     in case RA_NewCertificate (RA wfe) init (reg_ID reg) of
                          Inl err \<Rightarrow>
                            sendError wfe ''Error creating new cert'' (statusCodeFromError err) s
                        | Inr cert \<Rightarrow>
                            (case x509_ParseCertificate (lib wfe) (cert_DER cert) of
                               Inl err \<Rightarrow>
                                 sendError wfe ''Error creating new cert'' StatusBadRequest s
                             | Inr parsedCertificate \<Rightarrow>
                                 (let serial = SerialNumber parsedCertificate;
                                      certURL = CertBase wfe @ Sprintf_016x (Rsh64 serial)
                                  in respond (Write (cert_DER cert))
                                       (respond (WriteHeader StatusCreated)
                                          (respond
                                             (Header_Set ''Content-Type'' ''application/pkix-cert'')
                                             (respond
                                                (Header_Add ''Link''
                                                   (link (BaseURL wfe @ IssuerPath) ''up''))
                                                (respond (Header_Add ''Location'' certURL)
                                                   s))))))))))"

definition Certificate :: "WebFrontEndImpl \<Rightarrow> Request \<Rightarrow> State \<Rightarrow> State" where
  "Certificate wfe request s0 =
     (let s = sendStandardHeaders s0;
          path = Path (req_URL request) in
      if Method request \<noteq> ''GET'' \<and> Method request \<noteq> ''POST''
        then methodNotAllowed wfe ''GET, POST'' s
      else if Method request = ''GET'' then
        (if \<not> HasPrefix path CertPath then sendError wfe ''Not found'' StatusNotFound s
         else
           (let serial = drop (length CertPath) path in
            if length serial \<noteq> 16 \<or> \<not> allHex serial
              then sendError wfe ''Not found'' StatusNotFound s
            else
              (case GetCertificateByShortSerial (SA wfe) serial of
                 Inl err \<Rightarrow>
                   if HasPrefix (Error err) ''gorp: multiple rows returned''
                     then sendError wfe ''Multiple certificates with same short serial''
                            StatusConflict s
                   else sendError wfe ''Not found'' StatusNotFound s
               | Inr cert \<Rightarrow>
                   respond (Write (cert_DER cert))
                     (respond (WriteHeader StatusOK)
                        (respond (Header_Add ''Link'' (link IssuerPath ''up''))
                           (respond (Header_Set ''Content-Type'' ''application/pkix-cert'')
                              s))))))
      else if Method request = ''POST''
        then sendError wfe ''Not yet supported'' StatusNotFound s
      else methodNotAllowed wfe ''GET, POST'' s)"

subsection \<open>Example collaborators\<close>

text \<open>
  Small stand-ins for the libraries and the collaborators, to run the handlers on concrete
  requests. The toy envelope is signed by the key \<open>key-A\<close> and carries the nonce \<open>n\<close>,
  the first token the nonce service issues; a body starting with \<open>!\<close> does not parse.
\<close>

definition exampleLib :: Libraries where
  "exampleLib =
     \<lparr>jose_ParseSigned = (\<lambda>body.
          if take 1 body = ''!'' then Inl (errors_New ''square/go-jose: compact JWS format must have three parts'')
          else Inr \<lparr>jws_payload = body,
                    Signatures = [\<lparr>Header_JsonWebKey = Some ''key-A'', sig_Signature = ''sig''\<rparr>]\<rparr>),
      jose_Verify = (\<lambda>jws key.
          if key = Some ''key-A'' then Inr (jws_payload jws, \<lparr>Nonce = ''n''\<rparr>)
          else Inl (errors_New ''square/go-jose: error in cryptographic primitive'')),
      json_Marshal_problem = (\<lambda>p. Inr (Type p @ '' '' @ Detail p)),
      json_Marshal_Registration = (\<lambda>r. Inr (reg_Key r @ '' '' @ reg_Agreement r)),
      json_Marshal_Challenge = (\<lambda>c. Inr (chall_Type c @ '' '' @ chall_Status c)),
      json_Marshal_Authorization = (\<lambda>a. Inr (authz_Identifier a)),
      json_Unmarshal_Registration = (\<lambda>b.
          Inr \<lparr>reg_ID = 0, reg_Key = ''key-B'', reg_Contact = [b], reg_Agreement = []\<rparr>),
      json_Unmarshal_Challenge = (\<lambda>b.
          Inr \<lparr>chall_Type = ''simpleHttps'', chall_Status = [],
               chall_URI = \<lparr>Path = [], RawQuery = []\<rparr>, chall_Token = b\<rparr>),
      json_Unmarshal_RevokeRequest = (\<lambda>b. Inr \<lparr>CertificateDER = b\<rparr>),
      json_Unmarshal_CertificateRequest = (\<lambda>b. Inr b),
      x509_ParseCertificate = (\<lambda>der.
          Inr \<lparr>SerialNumber = int (length der), x509_PublicKey = ''key-C'', Raw = der\<rparr>),
      url_String = (\<lambda>u. Path u @ ''?'' @ RawQuery u),
      core_SerialToString = (\<lambda>n. replicate (nat n) CHR ''1''),
      core_KeyDigestEquals = (\<lambda>k pk. k = pk)\<rparr>"

definition exampleReg :: Registration where
  "exampleReg =
     \<lparr>reg_ID = 7, reg_Key = ''key-A'', reg_Contact = [], reg_Agreement = ''https://ca/terms/v1''\<rparr>"

definition exampleChallenge :: Challenge where
  "exampleChallenge =
     \<lparr>chall_Type = ''simpleHttps'', chall_Status = ''pending'',
      chall_URI = \<lparr>Path = ''/acme/authz/a1'', RawQuery = ''challenge=0''\<rparr>,
      chall_Token = ''t0''\<rparr>"

definition exampleAuthz :: "int \<Rightarrow> Authorization" where
  "exampleAuthz owner =
     \<lparr>authz_ID = ''a1'', authz_RegistrationID = owner, authz_Identifier = ''example.com'',
      authz_Status = ''pending'', authz_Challenges = [exampleChallenge]\<rparr>"

definition exampleSA :: StorageGetter where
  "exampleSA =
     \<lparr>GetRegistrationByKey = (\<lambda>k. if k = ''key-A'' then Inr exampleReg else Inl ErrNoRows),
      GetAuthorization = (\<lambda>i. if i = ''a1'' then Inr (exampleAuthz 7) else Inl ErrNoRows),
      GetCertificate = (\<lambda>serial.
          if serial = ''111'' then Inr \<lparr>cert_RegistrationID = 9, cert_DER = ''DER''\<rparr>
          else Inl ErrNoRows),
      GetCertificateByShortSerial = (\<lambda>short. Inl ErrNoRows),
      GetCertificateStatus = (\<lambda>serial. Inr \<lparr>Status = OCSPStatusGood\<rparr>)\<rparr>"

definition exampleRA :: RegistrationAuthority where
  "exampleRA =
     \<lparr>RA_UpdateRegistration = (\<lambda>old update. Inr (update\<lparr>reg_ID := reg_ID old\<rparr>)),
      RA_UpdateAuthorization = (\<lambda>authz i response.
          Inr (authz\<lparr>authz_Challenges :=
                 (authz_Challenges authz)[i := (authz_Challenges authz ! i)
                                                \<lparr>chall_Status := ''valid''\<rparr>]\<rparr>)),
      RA_NewCertificate = (\<lambda>request regID.
          Inr \<lparr>cert_RegistrationID = regID, cert_DER = request\<rparr>),
      RA_RevokeCertificate = (\<lambda>cert. None)\<rparr>"

definition exampleWFE :: WebFrontEndImpl where
  "exampleWFE =
     \<lparr>RA = exampleRA, SA = exampleSA, lib = exampleLib,
      BaseURL = ''https://ca'', NewReg = ''https://ca/acme/new-reg'',
      RegBase = ''https://ca/acme/reg/'', NewAuthz = ''https://ca/acme/new-authz'',
      AuthzBase = ''https://ca/acme/authz/'',
      NewCert = ''https://ca/acme/new-cert'', CertBase = ''https://ca/acme/cert/'',
      SubscriberAgreementURL = ''https://ca/terms/v1''\<rparr>"

text \<open>The example front end with a storage that knows no registration and owns a
  certificate of registration 0.\<close>

definition exampleWFE_unknownSigner :: WebFrontEndImpl where
  "exampleWFE_unknownSigner =
     exampleWFE\<lparr>SA := exampleSA
       \<lparr>GetRegistrationByKey := (\<lambda>k. Inl ErrNoRows),
        GetCertificate := (\<lambda>serial.
          if serial = ''111'' then Inr \<lparr>cert_RegistrationID = 0, cert_DER = ''DER''\<rparr>
          else Inl ErrNoRows)\<rparr>\<rparr>"

text \<open>The example front end with an Authority that does not support issuance.\<close>

definition exampleWFE_notSupported :: WebFrontEndImpl where
  "exampleWFE_notSupported =
     exampleWFE\<lparr>RA := exampleRA
       \<lparr>RA_NewCertificate := (\<lambda>request regID. Inl (NotSupportedError ''not supported''))\<rparr>\<rparr>"

text \<open>The example front end with a storage in which every certificate is revoked.\<close>

definition exampleWFE_revoked :: WebFrontEndImpl where
  "exampleWFE_revoked =
     exampleWFE\<lparr>SA := exampleSA
       \<lparr>GetCertificateStatus := (\<lambda>serial. Inr \<lparr>Status = OCSPStatusRevoked\<rparr>)\<rparr>\<rparr>"

text \<open>
  Modelled from the spec: the storage authority's \<^verbatim>\<open>GetCertificateByShortSerial\<close> is not
  among the source files. The spec's \<open>getCertificateByShortSerial(shortId)\<close> returns the
  certificate with that short identifier, or an error, and "must signal the multiple-match
  case distinctly from not-found"; the source recognises the multiple-match case by the
  prefix of the error's message. The store is a list of certificates with their serial
  numbers.
\<close>

definition store_GetCertificateByShortSerial ::
  "(int \<times> Certificate) list \<Rightarrow> string \<Rightarrow> error + Certificate"
where
  "store_GetCertificateByShortSerial certs shortSerial =
     (case filter (\<lambda>sc. Sprintf_016x (Rsh64 (fst sc)) = shortSerial) certs of
        [] \<Rightarrow> Inl ErrNoRows
      | [sc] \<Rightarrow> Inr (snd sc)
      | _ \<Rightarrow> Inl (errors_New ''gorp: multiple rows returned for: SELECT * FROM certificates''))"

text \<open>
  A store of four certificates: the first two differ only in the low 64 bits of their
  serial numbers, the last has a serial number of 129 bits.
\<close>

definition exampleStore :: "(int \<times> Certificate) list" where
  "exampleStore =
     [(92233720368547758081, \<lparr>cert_RegistrationID = 7, cert_DER = ''DER-1''\<rparr>),
      (92233720368547758082, \<lparr>cert_RegistrationID = 7, cert_DER = ''DER-2''\<rparr>),
      (110680464442257309696, \<lparr>cert_RegistrationID = 7, cert_DER = ''DER-3''\<rparr>),
      (340282366920938463463374607431768211456,
         \<lparr>cert_RegistrationID = 7, cert_DER = ''DER-4''\<rparr>)]"

text \<open>
  The example front end on that store: a DER encoding parses to the serial number the store
  has for it, and the example Authority issues the certificate whose DER is the request.
\<close>

definition exampleWFE_store :: WebFrontEndImpl where
  "exampleWFE_store =
     exampleWFE
       \<lparr>SA := exampleSA
          \<lparr>GetCertificateByShortSerial := store_GetCertificateByShortSerial exampleStore\<rparr>,
        lib := exampleLib
          \<lparr>x509_ParseCertificate := (\<lambda>der.
             case filter (\<lambda>sc. cert_DER (snd sc) = der) exampleStore of
               [] \<Rightarrow> Inl (errors_New ''asn1: syntax error'')
             | sc # _ \<Rightarrow> Inr \<lparr>SerialNumber = fst sc, x509_PublicKey = ''key-C'', Raw = der\<rparr>)\<rparr>\<rparr>"

definition exampleGET :: "string \<Rightarrow> Request" where
  "exampleGET path = \<lparr>Method = ''GET'', req_URL = \<lparr>Path = path, RawQuery = []\<rparr>, Body = NilBody\<rparr>"

text \<open>A handler state at the start of a request: an empty response, no call made yet.\<close>

definition initState :: "NonceService \<Rightarrow> State" where
  "initState ns = \<lparr>response = NewResponse, nonceService = ns, raCalls = [], panicked = False\<rparr>"

text \<open>The nonce service after it has issued its first token, \<open>n\<close>.\<close>

definition exampleNonces :: NonceService where
  "exampleNonces = snd (NonceService_Nonce NewNonceService)"

definition examplePOST :: "string \<Rightarrow> string \<Rightarrow> bytes \<Rightarrow> Request" where
  "examplePOST path query body =
     \<lparr>Method = ''POST'', req_URL = \<lparr>Path = path, RawQuery = query\<rparr>, Body = BodyBytes body\<rparr>"

section \<open>Properties\<close>

subsection \<open>What the helpers leave unchanged\<close>

lemma respond_simps [simp]:
  "raCalls (respond f s) = raCalls s"
  "nonceService (respond f s) = nonceService s"
  "panicked (respond f s) = panicked s"
  "response (respond f s) = f (response s)"
  by (simp_all add: respond_def)

lemma callRA_simps [simp]:
  "raCalls (callRA c s) = raCalls s @ [c]"
  "nonceService (callRA c s) = nonceService s"
  "panicked (callRA c s) = panicked s"
  "response (callRA c s) = response s"
  by (simp_all add: callRA_def)

lemma panic_simps [simp]:
  "raCalls (panic s) = raCalls s"
  "nonceService (panic s) = nonceService s"
  "panicked (panic s) = True"
  "response (panic s) = response s"
  by (simp_all add: panic_def)

lemma Code_simps [simp]:
  "Code (Header_Set k v r) = Code r"
  "Code (Header_Add k v r) = Code r"
  "Code (WriteHeader c r) = (case Code r of None \<Rightarrow> Some c | Some c' \<Rightarrow> Some c')"
  "Code (Write b r) = (case Code r of None \<Rightarrow> Some StatusOK | Some c' \<Rightarrow> Some c')"
  by (simp_all add: Header_Set_def Header_Add_def WriteHeader_def Write_def Let_def split: option.splits)

lemma Written_simps [simp]:
  "Written (Header_Set k v r) = Written r"
  "Written (Header_Add k v r) = Written r"
  "Written (WriteHeader c r) = Written r"
  "Written (Write b r) = Written r @ b"
  by (simp_all add: Header_Set_def Header_Add_def WriteHeader_def Write_def Let_def split: option.splits)

lemma sendError_simps [simp]:
  "raCalls (sendError wfe d c s) = raCalls s"
  "nonceService (sendError wfe d c s) = nonceService s"
  "panicked (sendError wfe d c s) = panicked s"
  "Code (response (sendError wfe d c s)) = (case Code (response s) of None \<Rightarrow> Some c | Some c' \<Rightarrow> Some c')"
  by (simp_all add: sendError_def Let_def split: option.splits)

lemma sendAllow_simps [simp]:
  "raCalls (sendAllow m s) = raCalls s"
  "nonceService (sendAllow m s) = nonceService s"
  "panicked (sendAllow m s) = panicked s"
  "Code (response (sendAllow m s)) = Code (response s)"
  "Written (response (sendAllow m s)) = Written (response s)"
  by (simp_all add: sendAllow_def)

lemma sendStandardHeaders_simps [simp]:
  "raCalls (sendStandardHeaders s) = raCalls s"
  "nonceService (sendStandardHeaders s) = snd (NonceService_Nonce (nonceService s))"
  "panicked (sendStandardHeaders s) = panicked s"
  "Code (response (sendStandardHeaders s)) = Code (response s)"
  "Written (response (sendStandardHeaders s)) = Written (response s)"
  by (simp_all add: sendStandardHeaders_def Let_def split: prod.splits)

lemma methodNotAllowed_simps [simp]:
  "raCalls (methodNotAllowed wfe m s) = raCalls s"
  "nonceService (methodNotAllowed wfe m s) = nonceService s"
  "panicked (methodNotAllowed wfe m s) = panicked s"
  "Code (response (methodNotAllowed wfe m s)) = (case Code (response s) of None \<Rightarrow> Some StatusMethodNotAllowed | Some c' \<Rightarrow> Some c')"
  by (simp_all add: methodNotAllowed_def)

lemma verifyFailed_simps [simp]:
  "raCalls (verifyFailed wfe e s) = raCalls s"
  "nonceService (verifyFailed wfe e s) = nonceService s"
  "panicked (verifyFailed wfe e s) = panicked s"
  "Code (response (verifyFailed wfe e s)) = (case Code (response s) of None \<Rightarrow> Some (if e = ErrNoRows then StatusForbidden else StatusBadRequest) | Some c' \<Rightarrow> Some c')"
  by (simp_all add: verifyFailed_def split: option.splits)

lemma writeChallenge_simps [simp]:
  "raCalls (writeChallenge wfe a c j s) = raCalls s"
  "nonceService (writeChallenge wfe a c j s) = nonceService s"
  "panicked (writeChallenge wfe a c j s) = panicked s"
  "Code (response (writeChallenge wfe a c j s)) = (case Code (response s) of None \<Rightarrow> Some StatusAccepted | Some c' \<Rightarrow> Some c')"
  "Written (response (writeChallenge wfe a c j s)) = Written (response s) @ j"
  by (simp_all add: writeChallenge_def split: option.splits)

lemmas example_defs =
  exampleWFE_def exampleLib_def exampleSA_def exampleRA_def exampleReg_def exampleAuthz_def
  exampleChallenge_def exampleNonces_def examplePOST_def initState_def NewResponse_def
  NewNonceService_def NonceService_Nonce_def NonceService_Valid_def nonceToken_def
  exampleWFE_unknownSigner_def exampleWFE_revoked_def exampleGET_def
  exampleStore_def exampleWFE_store_def exampleWFE_notSupported_def

lemma example_verifyPOST:
  "verifyPOST exampleWFE (nonceService (sendStandardHeaders (initState exampleNonces)))
     (examplePOST path query ''{}'') regCheck
   = (Return (Inr (''{}'', ''key-A'', exampleReg)), \<lparr>issued = 2, outstanding = [''nn'']\<rparr>)"
  by (simp add: verifyPOST_def example_defs)

lemma statusCodeFromError_cases:
  "statusCodeFromError e \<in> {StatusBadRequest, StatusNotImplemented, StatusForbidden,
     StatusNotFound, StatusPreconditionFailed, StatusInternalServerError}"
  by (cases e) simp_all

lemma statusCodeFromError_not_success [simp]:
  "statusCodeFromError e \<noteq> StatusOK"
  "statusCodeFromError e \<noteq> StatusCreated"
  "statusCodeFromError e \<noteq> StatusAccepted"
  by (cases e; simp)+

subsection \<open>verifyPOST\<close>

lemma one_signature:
  "\<not> 1 < length sigs \<Longrightarrow> length sigs \<noteq> 0 \<Longrightarrow> sigs = [sigs ! 0]"
  by (cases sigs) auto

text \<open>\<^verbatim>\<open>verifyPOST\<close> on an envelope with one signature that verifies and a valid nonce.\<close>

lemma verifyPOST_accepts:
  assumes "Body request = BodyBytes b"
      and "jose_ParseSigned (lib wfe) b = Inr jws"
      and "Signatures jws = [sg]"
      and "Header_JsonWebKey sg = Some k"
      and "jose_Verify (lib wfe) jws (Some k) = Inr (payload, header)"
      and "Nonce header \<noteq> []"
      and "Nonce header \<in> set (outstanding ns)"
  shows "verifyPOST wfe ns request regCheck =
           (case GetRegistrationByKey (SA wfe) k of
              Inl err \<Rightarrow>
                if regCheck then Return (Inl err)
                else Return (Inr (payload, k, emptyRegistration))
            | Inr reg \<Rightarrow> Return (Inr (payload, k, reg)),
            consumed (Nonce header) ns)"
  using assms
  by (simp add: verifyPOST_def NonceService_Valid_def consumed_def split: sum.splits)

text \<open>What a successful \<^verbatim>\<open>verifyPOST\<close> has checked.\<close>

lemma verifyPOST_accepted:
  assumes "verifyPOST wfe ns request regCheck = (Return (Inr (payload, k, reg)), ns')"
  shows "\<exists>b jws sg header.
           Body request = BodyBytes b
           \<and> jose_ParseSigned (lib wfe) b = Inr jws
           \<and> Signatures jws = [sg]
           \<and> Header_JsonWebKey sg = Some k
           \<and> jose_Verify (lib wfe) jws (Some k) = Inr (payload, header)
           \<and> Nonce header \<noteq> []
           \<and> Nonce header \<in> set (outstanding ns)
           \<and> ns' = consumed (Nonce header) ns"
proof (cases "Body request")
  case (BodyBytes b)
  show ?thesis
  proof (cases "jose_ParseSigned (lib wfe) b")
    case (Inr jws)
    from assms BodyBytes Inr have len: "\<not> 1 < length (Signatures jws)" "length (Signatures jws) \<noteq> 0"
      by (auto simp: verifyPOST_def split: if_splits)
    then have one: "Signatures jws = [Signatures jws ! 0]"
      by (rule one_signature)
    from assms BodyBytes Inr len obtain header where
        "Header_JsonWebKey (Signatures jws ! 0) = Some k"
        "jose_Verify (lib wfe) jws (Some k) = Inr (payload, header)"
        "Nonce header \<noteq> []" "Nonce header \<in> set (outstanding ns)"
        "ns' = consumed (Nonce header) ns"
      by (auto simp: verifyPOST_def Let_def NonceService_Valid_def consumed_def
               split: sum.splits prod.splits option.splits if_splits)
    with BodyBytes Inr one show ?thesis
      by blast
  qed (use assms BodyBytes in \<open>simp add: verifyPOST_def\<close>)
qed (use assms in \<open>simp_all add: verifyPOST_def\<close>)

text \<open>The nonce service changes only by the consumption of the nonce of a verified envelope.\<close>

lemma verifyPOST_nonceService:
  "snd (verifyPOST wfe ns request regCheck) = ns
   \<or> (\<exists>b jws sg payload header.
         Body request = BodyBytes b
         \<and> jose_ParseSigned (lib wfe) b = Inr jws
         \<and> Signatures jws = [sg]
         \<and> jose_Verify (lib wfe) jws (Header_JsonWebKey sg) = Inr (payload, header)
         \<and> Nonce header \<in> set (outstanding ns)
         \<and> snd (verifyPOST wfe ns request regCheck) = consumed (Nonce header) ns)"
proof (cases "Body request")
  case (BodyBytes b)
  show ?thesis
  proof (cases "jose_ParseSigned (lib wfe) b")
    case (Inr jws)
    show ?thesis
    proof (cases "1 < length (Signatures jws) \<or> length (Signatures jws) = 0")
      case True
      with BodyBytes Inr show ?thesis
        by (auto simp: verifyPOST_def)
    next
      case False
      then have one: "Signatures jws = [Signatures jws ! 0]"
        by (simp add: one_signature)
      from False BodyBytes Inr have
        "snd (verifyPOST wfe ns request regCheck) = ns
         \<or> (\<exists>payload header.
               jose_Verify (lib wfe) jws (Header_JsonWebKey (Signatures jws ! 0))
                 = Inr (payload, header)
               \<and> Nonce header \<in> set (outstanding ns)
               \<and> snd (verifyPOST wfe ns request regCheck) = consumed (Nonce header) ns)"
        by (auto simp: verifyPOST_def Let_def NonceService_Valid_def consumed_def
                 split: sum.splits prod.splits option.splits if_splits)
      with BodyBytes Inr one show ?thesis
        by blast
    qed
  qed (use BodyBytes in \<open>simp add: verifyPOST_def\<close>)
qed (simp_all add: verifyPOST_def)

text \<open>\<^verbatim>\<open>verifyPOST\<close> on a verified envelope whose nonce is not valid.\<close>

lemma verifyPOST_invalid_nonce:
  assumes "Body request = BodyBytes b"
      and "jose_ParseSigned (lib wfe) b = Inr jws"
      and "Signatures jws = [sg]"
      and "jose_Verify (lib wfe) jws (Header_JsonWebKey sg) = Inr (payload, header)"
      and "Nonce header \<noteq> []"
      and "Nonce header \<notin> set (outstanding ns)"
  shows "verifyPOST wfe ns request regCheck
           = (Return (Inl (errors_New ''JWS has invalid anti-replay nonce'')), ns)"
  using assms
  by (simp add: verifyPOST_def NonceService_Valid_def)

lemma verifyPOST_regCheck_lookup:
  assumes "verifyPOST wfe ns request True = (Return (Inr (body, k, reg)), ns')"
  shows "GetRegistrationByKey (SA wfe) k = Inr reg"
proof (cases "Body request")
  case (BodyBytes b)
  show ?thesis
  proof (cases "jose_ParseSigned (lib wfe) b")
    case (Inr jws)
    with assms BodyBytes show ?thesis
      by (auto simp: verifyPOST_def Let_def
               split: sum.splits prod.splits option.splits if_splits bool.splits)
  qed (use assms BodyBytes in \<open>simp add: verifyPOST_def\<close>)
qed (use assms in \<open>simp_all add: verifyPOST_def\<close>)

lemma verifyPOST_RA_update [simp]:
  "verifyPOST (wfe\<lparr>RA := ra\<rparr>) ns request regCheck = verifyPOST wfe ns request regCheck"
proof -
  have "lib (wfe\<lparr>RA := ra\<rparr>) = lib wfe" "SA (wfe\<lparr>RA := ra\<rparr>) = SA wfe"
    by simp_all
  then show ?thesis
    unfolding verifyPOST_def by presburger
qed

lemma sendError_RA_update [simp]:
  "sendError (wfe\<lparr>RA := ra\<rparr>) details code s = sendError wfe details code s"
proof -
  have "lib (wfe\<lparr>RA := ra\<rparr>) = lib wfe"
    by simp
  then show ?thesis
    unfolding sendError_def by presburger
qed

text \<open>
  C1. \<^verbatim>\<open>verifyPOST\<close> succeeds if and only if the body parses as an envelope with
  exactly one signature, the signature verifies against the key embedded in its header, the
  nonce of the verified header is not empty and is valid in the nonce service, and, when a
  registration is required, storage knows a registration for the key. The nonce service
  changes only by the consumption of the nonce of an envelope whose signature has verified.
\<close>

theorem verifyPOST_succeeds_iff:
  "((\<exists>v ns'. verifyPOST wfe ns request regCheck = (Return (Inr v), ns')) \<longleftrightarrow>
      (\<exists>b jws sg k payload header.
         Body request = BodyBytes b
         \<and> jose_ParseSigned (lib wfe) b = Inr jws
         \<and> Signatures jws = [sg]
         \<and> Header_JsonWebKey sg = Some k
         \<and> jose_Verify (lib wfe) jws (Some k) = Inr (payload, header)
         \<and> Nonce header \<noteq> []
         \<and> Nonce header \<in> set (outstanding ns)
         \<and> (regCheck \<longrightarrow> (\<exists>reg. GetRegistrationByKey (SA wfe) k = Inr reg))))
   \<and> (snd (verifyPOST wfe ns request regCheck) \<noteq> ns \<longrightarrow>
        (\<exists>b jws sg payload header.
           Body request = BodyBytes b
           \<and> jose_ParseSigned (lib wfe) b = Inr jws
           \<and> Signatures jws = [sg]
           \<and> jose_Verify (lib wfe) jws (Header_JsonWebKey sg) = Inr (payload, header)
           \<and> Nonce header \<in> set (outstanding ns)
           \<and> snd (verifyPOST wfe ns request regCheck) = consumed (Nonce header) ns))"
proof (intro conjI iffI impI)
  assume "\<exists>v ns'. verifyPOST wfe ns request regCheck = (Return (Inr v), ns')"
  then obtain payload k reg ns' where
    ok: "verifyPOST wfe ns request regCheck = (Return (Inr (payload, k, reg)), ns')"
    by (metis prod_cases3)
  from verifyPOST_accepted [OF ok] obtain b jws sg header where
    env: "Body request = BodyBytes b" "jose_ParseSigned (lib wfe) b = Inr jws"
      "Signatures jws = [sg]" "Header_JsonWebKey sg = Some k"
      "jose_Verify (lib wfe) jws (Some k) = Inr (payload, header)"
      "Nonce header \<noteq> []" "Nonce header \<in> set (outstanding ns)"
    by blast
  have "regCheck \<longrightarrow> (\<exists>reg. GetRegistrationByKey (SA wfe) k = Inr reg)"
    using ok verifyPOST_accepts [OF env, of regCheck]
    by (auto split: sum.splits)
  with env show "\<exists>b jws sg k payload header.
         Body request = BodyBytes b
         \<and> jose_ParseSigned (lib wfe) b = Inr jws
         \<and> Signatures jws = [sg]
         \<and> Header_JsonWebKey sg = Some k
         \<and> jose_Verify (lib wfe) jws (Some k) = Inr (payload, header)
         \<and> Nonce header \<noteq> []
         \<and> Nonce header \<in> set (outstanding ns)
         \<and> (regCheck \<longrightarrow> (\<exists>reg. GetRegistrationByKey (SA wfe) k = Inr reg))"
    by blast
next
  assume "\<exists>b jws sg k payload header.
         Body request = BodyBytes b
         \<and> jose_ParseSigned (lib wfe) b = Inr jws
         \<and> Signatures jws = [sg]
         \<and> Header_JsonWebKey sg = Some k
         \<and> jose_Verify (lib wfe) jws (Some k) = Inr (payload, header)
         \<and> Nonce header \<noteq> []
         \<and> Nonce header \<in> set (outstanding ns)
         \<and> (regCheck \<longrightarrow> (\<exists>reg. GetRegistrationByKey (SA wfe) k = Inr reg))"
  then obtain b jws sg k payload header where
    env: "Body request = BodyBytes b" "jose_ParseSigned (lib wfe) b = Inr jws"
      "Signatures jws = [sg]" "Header_JsonWebKey sg = Some k"
      "jose_Verify (lib wfe) jws (Some k) = Inr (payload, header)"
      "Nonce header \<noteq> []" "Nonce header \<in> set (outstanding ns)"
    and reg: "regCheck \<longrightarrow> (\<exists>reg. GetRegistrationByKey (SA wfe) k = Inr reg)"
    by blast
  from reg show "\<exists>v ns'. verifyPOST wfe ns request regCheck = (Return (Inr v), ns')"
    unfolding verifyPOST_accepts [OF env, of regCheck]
    by (auto split: sum.splits)
next
  assume "snd (verifyPOST wfe ns request regCheck) \<noteq> ns"
  with verifyPOST_nonceService [of wfe ns request regCheck]
  show "\<exists>b jws sg payload header.
           Body request = BodyBytes b
           \<and> jose_ParseSigned (lib wfe) b = Inr jws
           \<and> Signatures jws = [sg]
           \<and> jose_Verify (lib wfe) jws (Header_JsonWebKey sg) = Inr (payload, header)
           \<and> Nonce header \<in> set (outstanding ns)
           \<and> snd (verifyPOST wfe ns request regCheck) = consumed (Nonce header) ns"
    by blast
qed

theorem verifyPOST_succeeds_iff_witness:
  "(\<exists>v ns'. verifyPOST exampleWFE exampleNonces (examplePOST ''/acme/new-authz'' [] ''{}'') True
       = (Return (Inr v), ns'))
   \<and> snd (verifyPOST exampleWFE exampleNonces (examplePOST ''/acme/new-authz'' [] ''{}'') True)
       = consumed ''n'' exampleNonces"
proof -
  let ?req = "examplePOST ''/acme/new-authz'' [] ''{}''"
  let ?sg = "\<lparr>Header_JsonWebKey = Some ''key-A'', sig_Signature = ''sig''\<rparr>"
  let ?jws = "\<lparr>jws_payload = ''{}'', Signatures = [?sg]\<rparr>"
  have env: "Body ?req = BodyBytes ''{}''
         \<and> jose_ParseSigned (lib exampleWFE) ''{}'' = Inr ?jws
         \<and> Signatures ?jws = [?sg]
         \<and> Header_JsonWebKey ?sg = Some ''key-A''
         \<and> jose_Verify (lib exampleWFE) ?jws (Some ''key-A'') = Inr (''{}'', \<lparr>Nonce = ''n''\<rparr>)
         \<and> Nonce \<lparr>Nonce = ''n''\<rparr> \<noteq> []
         \<and> Nonce \<lparr>Nonce = ''n''\<rparr> \<in> set (outstanding exampleNonces)
         \<and> (True \<longrightarrow> (\<exists>reg. GetRegistrationByKey (SA exampleWFE) ''key-A'' = Inr reg))"
    by (simp add: example_defs)
  have changed: "snd (verifyPOST exampleWFE exampleNonces ?req True) \<noteq> exampleNonces"
    by (simp add: verifyPOST_def example_defs)
  from verifyPOST_succeeds_iff [of exampleWFE exampleNonces ?req True] env changed
  have "(\<exists>v ns'. verifyPOST exampleWFE exampleNonces ?req True = (Return (Inr v), ns'))"
    by blast
  moreover have "snd (verifyPOST exampleWFE exampleNonces ?req True) = consumed ''n'' exampleNonces"
    by (simp add: verifyPOST_def consumed_def example_defs)
  ultimately show ?thesis
    by simp
qed

text \<open>
  A signer that storage knows no registration for, with a registration required: the
  envelope parses with one signature, the signature verifies and the nonce is valid, and
  \<^verbatim>\<open>verifyPOST\<close> fails with the error of the lookup, the nonce consumed.
\<close>

theorem verifyPOST_unknown_account_counterexample:
  "Body (examplePOST ''/acme/new-authz'' [] ''{}'') = BodyBytes ''{}''
   \<and> jose_ParseSigned (lib exampleWFE_unknownSigner) ''{}''
       = Inr \<lparr>jws_payload = ''{}'',
              Signatures = [\<lparr>Header_JsonWebKey = Some ''key-A'', sig_Signature = ''sig''\<rparr>]\<rparr>
   \<and> jose_Verify (lib exampleWFE_unknownSigner)
         \<lparr>jws_payload = ''{}'',
          Signatures = [\<lparr>Header_JsonWebKey = Some ''key-A'', sig_Signature = ''sig''\<rparr>]\<rparr>
         (Some ''key-A'')
       = Inr (''{}'', \<lparr>Nonce = ''n''\<rparr>)
   \<and> ''n'' \<in> set (outstanding exampleNonces)
   \<and> verifyPOST exampleWFE_unknownSigner exampleNonces
         (examplePOST ''/acme/new-authz'' [] ''{}'') True
       = (Return (Inl ErrNoRows), consumed ''n'' exampleNonces)"
  by (simp add: verifyPOST_def consumed_def example_defs)

subsection \<open>The nonce service\<close>

lemma nonceToken_inject [simp]: "nonceToken a = nonceToken b \<longleftrightarrow> a = b"
proof
  assume "nonceToken a = nonceToken b"
  then have "length (nonceToken a) = length (nonceToken b)"
    by simp
  then show "a = b"
    by (simp add: nonceToken_def)
qed simp

lemma nonceToken_nonempty [simp]: "nonceToken n \<noteq> []"
  by (simp add: nonceToken_def)

lemma issuedOnly_iff:
  "issuedOnly ns \<longleftrightarrow> (\<forall>token \<in> set (outstanding ns). \<exists>k < issued ns. token = nonceToken k)"
  by (auto simp: issuedOnly_def list_all_iff)

lemma issuedOnly_New: "issuedOnly NewNonceService"
  by (simp add: issuedOnly_iff NewNonceService_def)

lemma applyNonceOp_issuedOnly: "issuedOnly ns \<Longrightarrow> issuedOnly (applyNonceOp op ns)"
proof (cases op)
  case Issue
  assume "issuedOnly ns"
  with Issue show ?thesis
    by (auto simp: issuedOnly_iff NonceService_Nonce_def intro: less_SucI)
next
  case (Consume token)
  assume "issuedOnly ns"
  with Consume show ?thesis
    by (auto simp: issuedOnly_iff NonceService_Valid_def)
qed

lemma runNonceOps_issuedOnly: "issuedOnly ns \<Longrightarrow> issuedOnly (runNonceOps ops ns)"
  unfolding runNonceOps_def
  by (induction ops arbitrary: ns) (simp_all add: applyNonceOp_issuedOnly)

lemma applyNonceOp_issued_mono: "issued ns \<le> issued (applyNonceOp op ns)"
  by (cases op) (simp_all add: NonceService_Nonce_def NonceService_Valid_def)

lemma runNonceOps_issued_mono: "issued ns \<le> issued (runNonceOps ops ns)"
  unfolding runNonceOps_def
proof (induction ops arbitrary: ns)
  case Nil
  then show ?case by simp
next
  case (Cons op ops)
  from applyNonceOp_issued_mono [of ns op] Cons [of "applyNonceOp op ns"] show ?case
    by simp
qed

lemma applyNonceOp_spent: "spent k ns \<Longrightarrow> spent k (applyNonceOp op ns)"
proof (cases op)
  case Issue
  assume "spent k ns"
  with Issue applyNonceOp_issuedOnly [of ns Issue] show ?thesis
    by (auto simp: spent_def NonceService_Nonce_def)
next
  case (Consume token)
  assume "spent k ns"
  with Consume applyNonceOp_issuedOnly [of ns "Consume token"] show ?thesis
    by (auto simp: spent_def NonceService_Valid_def)
qed

lemma runNonceOps_spent: "spent k ns \<Longrightarrow> spent k (runNonceOps ops ns)"
  unfolding runNonceOps_def
  by (induction ops arbitrary: ns) (simp_all add: applyNonceOp_spent)

text \<open>An outstanding token stays outstanding until it is consumed.\<close>

lemma applyNonceOp_outstanding:
  "token \<in> set (outstanding ns) \<Longrightarrow> op \<noteq> Consume token \<Longrightarrow>
   token \<in> set (outstanding (applyNonceOp op ns))"
  by (cases op) (auto simp: NonceService_Nonce_def NonceService_Valid_def)

lemma runNonceOps_outstanding:
  "token \<in> set (outstanding ns) \<Longrightarrow> Consume token \<notin> set ops \<Longrightarrow>
   token \<in> set (outstanding (runNonceOps ops ns))"
  unfolding runNonceOps_def
proof (induction ops arbitrary: ns)
  case Nil
  then show ?case by simp
next
  case (Cons op ops)
  from Cons.prems have "token \<in> set (outstanding (applyNonceOp op ns))"
    by (intro applyNonceOp_outstanding) auto
  with Cons.prems Cons.IH [of "applyNonceOp op ns"] show ?case
    by simp
qed

lemma Valid_outstanding:
  "token \<in> set (outstanding ns) \<Longrightarrow> NonceService_Valid ns token = (True, consumed token ns)"
  by (simp add: NonceService_Valid_def consumed_def)

lemma Valid_not_outstanding:
  "token \<notin> set (outstanding ns) \<Longrightarrow> NonceService_Valid ns token = (False, ns)"
  by (simp add: NonceService_Valid_def)

lemma carries_envelope:
  "carries wfe request nonce \<longleftrightarrow>
     (\<exists>b jws sg payload header.
        Body request = BodyBytes b
        \<and> jose_ParseSigned (lib wfe) b = Inr jws
        \<and> Signatures jws = [sg]
        \<and> jose_Verify (lib wfe) jws (Header_JsonWebKey sg) = Inr (payload, header)
        \<and> Nonce header = nonce)"
proof
  assume "carries wfe request nonce"
  then obtain b jws payload header where
    e: "Body request = BodyBytes b" "jose_ParseSigned (lib wfe) b = Inr jws"
       "length (Signatures jws) = 1"
       "jose_Verify (lib wfe) jws (Header_JsonWebKey (Signatures jws ! 0)) = Inr (payload, header)"
       "Nonce header = nonce"
    by (auto simp: carries_def split: RequestBody.splits sum.splits prod.splits)
  from e(3) have "Signatures jws = [Signatures jws ! 0]"
    by (simp add: one_signature)
  with e show "\<exists>b jws sg payload header.
        Body request = BodyBytes b
        \<and> jose_ParseSigned (lib wfe) b = Inr jws
        \<and> Signatures jws = [sg]
        \<and> jose_Verify (lib wfe) jws (Header_JsonWebKey sg) = Inr (payload, header)
        \<and> Nonce header = nonce"
    by blast
next
  assume "\<exists>b jws sg payload header.
        Body request = BodyBytes b
        \<and> jose_ParseSigned (lib wfe) b = Inr jws
        \<and> Signatures jws = [sg]
        \<and> jose_Verify (lib wfe) jws (Header_JsonWebKey sg) = Inr (payload, header)
        \<and> Nonce header = nonce"
  then show "carries wfe request nonce"
    by (auto simp: carries_def)
qed

text \<open>An accepting \<^verbatim>\<open>verifyPOST\<close> has consumed the nonce that the request carries.\<close>

lemma verifyPOST_accepted_consumes:
  assumes "verifyPOST wfe ns request regCheck = (Return (Inr v), ns')"
      and "carries wfe request n"
  shows "n \<noteq> [] \<and> n \<in> set (outstanding ns) \<and> ns' = consumed n ns"
proof -
  obtain payload k reg where v: "v = (payload, k, reg)"
    by (cases v)
  from verifyPOST_accepted [OF assms(1) [unfolded v]] obtain b jws sg header where
    a: "Body request = BodyBytes b" "jose_ParseSigned (lib wfe) b = Inr jws"
       "Signatures jws = [sg]" "Header_JsonWebKey sg = Some k"
       "jose_Verify (lib wfe) jws (Some k) = Inr (payload, header)"
       "Nonce header \<noteq> []" "Nonce header \<in> set (outstanding ns)"
       "ns' = consumed (Nonce header) ns"
    by blast
  from assms(2) a(1-5) have "Nonce header = n"
    by (auto simp: carries_envelope)
  with a(6-8) show ?thesis
    by simp
qed

text \<open>A nonce that a reachable nonce service holds outstanding is spent once consumed.\<close>

lemma consumed_spent:
  assumes "issuedOnly ns" and "n \<in> set (outstanding ns)"
  shows "\<exists>k. n = nonceToken k \<and> spent k (consumed n ns)"
proof -
  from assms obtain k where k: "k < issued ns" "n = nonceToken k"
    by (auto simp: issuedOnly_iff)
  with assms(1) have "spent k (consumed n ns)"
    by (auto simp: spent_def consumed_def issuedOnly_iff)
  with k show ?thesis
    by blast
qed

lemma verifyPOST_rejects_spent:
  assumes "carries wfe request n" and "n \<noteq> []" and "n \<notin> set (outstanding ns)"
  shows "verifyPOST wfe ns request regCheck
           = (Return (Inl (errors_New ''JWS has invalid anti-replay nonce'')), ns)"
proof -
  from assms(1) obtain b jws sg payload header where
    e: "Body request = BodyBytes b" "jose_ParseSigned (lib wfe) b = Inr jws"
       "Signatures jws = [sg]"
       "jose_Verify (lib wfe) jws (Header_JsonWebKey sg) = Inr (payload, header)"
       "Nonce header = n"
    by (auto simp: carries_envelope)
  from e(5) assms(2,3) have "Nonce header \<noteq> []" "Nonce header \<notin> set (outstanding ns)"
    by simp_all
  with e(1-4) show ?thesis
    by (rule verifyPOST_invalid_nonce)
qed

text \<open>No request is accepted on a nonce that an earlier accepted request carried.\<close>

lemma verifyPOST_never_twice:
  assumes "s = runNonceOps ops NewNonceService"
      and "verifyPOST wfe s request regCheck = (Return (Inr v), s')"
      and "carries wfe request m"
  shows "s' = consumed m s"
    and "m \<notin> set (outstanding (runNonceOps ops2 s'))"
    and "carries wfe' request' m \<Longrightarrow>
         verifyPOST wfe' (runNonceOps ops2 s') request' regCheck'
           = (Return (Inl (errors_New ''JWS has invalid anti-replay nonce'')),
              runNonceOps ops2 s')"
proof -
  from verifyPOST_accepted_consumes [OF assms(2,3)]
  have m: "m \<noteq> []" "m \<in> set (outstanding s)" and s': "s' = consumed m s"
    by simp_all
  show "s' = consumed m s"
    by (rule s')
  have "issuedOnly s"
    unfolding assms(1) by (intro runNonceOps_issuedOnly issuedOnly_New)
  from consumed_spent [OF this m(2)] obtain k where k: "m = nonceToken k" "spent k s'"
    unfolding s' by blast
  from runNonceOps_spent [OF k(2), of ops2] k(1)
  show gone: "m \<notin> set (outstanding (runNonceOps ops2 s'))"
    by (simp add: spent_def)
  assume "carries wfe' request' m"
  from verifyPOST_rejects_spent [OF this m(1) gone]
  show "verifyPOST wfe' (runNonceOps ops2 s') request' regCheck'
           = (Return (Inl (errors_New ''JWS has invalid anti-replay nonce'')),
              runNonceOps ops2 s')" .
qed

text \<open>
  C2. A nonce issued by the nonce service is valid for exactly one successful verification.
  However many other tokens are issued or consumed after its issue, its first consumption
  succeeds and invalidates it, and a request that carries it in a verified envelope is
  accepted by \<^verbatim>\<open>verifyPOST\<close>, which consumes it. Whenever \<^verbatim>\<open>verifyPOST\<close> accepts a
  request, the nonce service it returns is the one with the carried nonce consumed; from then
  on, whatever the service does, the nonce is not outstanding, consuming it fails and leaves
  the service unchanged, and \<^verbatim>\<open>verifyPOST\<close> rejects every request that carries it, a replay
  of the accepted request included. Consuming a token that is not outstanding (unknown,
  consumed or malformed) fails without effect.
\<close>

theorem nonce_single_use:
  assumes "ns0 = runNonceOps ops0 NewNonceService"
      and "NonceService_Nonce ns0 = (n, ns1)"
      and "Consume n \<notin> set ops1"
      and "ns = runNonceOps ops1 ns1"
  shows "NonceService_Valid ns n = (True, consumed n ns)
         \<and> n \<notin> set (outstanding (consumed n ns))
         \<and> NonceService_Valid (runNonceOps ops2 (consumed n ns)) n
             = (False, runNonceOps ops2 (consumed n ns))
         \<and> (Body request = BodyBytes b
              \<and> jose_ParseSigned (lib wfe) b = Inr jws
              \<and> Signatures jws = [sg]
              \<and> Header_JsonWebKey sg = Some k
              \<and> jose_Verify (lib wfe) jws (Some k) = Inr (payload, header)
              \<and> Nonce header = n
              \<and> (regCheck \<longrightarrow> (\<exists>reg. GetRegistrationByKey (SA wfe) k = Inr reg)) \<longrightarrow>
             (\<exists>reg. verifyPOST wfe ns request regCheck
                      = (Return (Inr (payload, k, reg)), consumed n ns)))
         \<and> (s = runNonceOps ops NewNonceService
              \<and> verifyPOST wfe s request regCheck = (Return (Inr v), s')
              \<and> carries wfe request m \<longrightarrow>
             s' = consumed m s
             \<and> m \<notin> set (outstanding (runNonceOps ops2 s'))
             \<and> NonceService_Valid (runNonceOps ops2 s') m = (False, runNonceOps ops2 s')
             \<and> verifyPOST wfe (runNonceOps ops2 s') request regCheck
                 = (Return (Inl (errors_New ''JWS has invalid anti-replay nonce'')),
                    runNonceOps ops2 s')
             \<and> (carries wfe' request' m \<longrightarrow>
                  verifyPOST wfe' (runNonceOps ops2 s') request' regCheck'
                    = (Return (Inl (errors_New ''JWS has invalid anti-replay nonce'')),
                       runNonceOps ops2 s')))
         \<and> (token \<notin> set (outstanding ns') \<longrightarrow> NonceService_Valid ns' token = (False, ns'))"
proof -
  have wf0: "issuedOnly ns0"
    unfolding assms(1) by (intro runNonceOps_issuedOnly issuedOnly_New)
  from assms(2) have n: "n = nonceToken (issued ns0)"
    and ns1: "ns1 = \<lparr>issued = Suc (issued ns0), outstanding = n # outstanding ns0\<rparr>"
    by (auto simp: NonceService_Nonce_def)
  from wf0 ns1 n have wf1: "issuedOnly ns1"
    by (auto simp: issuedOnly_iff intro: less_SucI)
  then have wf: "issuedOnly ns"
    unfolding assms(4) by (rule runNonceOps_issuedOnly)
  from ns1 have "n \<in> set (outstanding ns1)"
    by simp
  with assms(3) have out: "n \<in> set (outstanding ns)"
    by (simp add: assms(4) runNonceOps_outstanding)
  then have first: "NonceService_Valid ns n = (True, consumed n ns)"
    by (rule Valid_outstanding)
  have gone: "n \<notin> set (outstanding (consumed n ns))"
    by (simp add: consumed_def)
  from consumed_spent [OF wf out] obtain j where j: "n = nonceToken j" "spent j (consumed n ns)"
    by blast
  from runNonceOps_spent [OF j(2), of ops2] j(1)
  have "n \<notin> set (outstanding (runNonceOps ops2 (consumed n ns)))"
    by (simp add: spent_def)
  then have again: "NonceService_Valid (runNonceOps ops2 (consumed n ns)) n
             = (False, runNonceOps ops2 (consumed n ns))"
    by (rule Valid_not_outstanding)
  have ne: "n \<noteq> []"
    by (simp add: n)
  have accept: "\<exists>reg. verifyPOST wfe ns request regCheck
                      = (Return (Inr (payload, k, reg)), consumed n ns)"
    if e: "Body request = BodyBytes b" "jose_ParseSigned (lib wfe) b = Inr jws"
      "Signatures jws = [sg]" "Header_JsonWebKey sg = Some k"
      "jose_Verify (lib wfe) jws (Some k) = Inr (payload, header)"
      and h: "Nonce header = n"
      and r: "regCheck \<longrightarrow> (\<exists>reg. GetRegistrationByKey (SA wfe) k = Inr reg)"
  proof -
    from h ne out have "Nonce header \<noteq> []" "Nonce header \<in> set (outstanding ns)"
      by simp_all
    from verifyPOST_accepts [OF e this, of regCheck] r h show ?thesis
      by (auto split: sum.splits)
  qed
  have twice: "s' = consumed m s
             \<and> m \<notin> set (outstanding (runNonceOps ops2 s'))
             \<and> NonceService_Valid (runNonceOps ops2 s') m = (False, runNonceOps ops2 s')
             \<and> verifyPOST wfe (runNonceOps ops2 s') request regCheck
                 = (Return (Inl (errors_New ''JWS has invalid anti-replay nonce'')),
                    runNonceOps ops2 s')
             \<and> (carries wfe' request' m \<longrightarrow>
                  verifyPOST wfe' (runNonceOps ops2 s') request' regCheck'
                    = (Return (Inl (errors_New ''JWS has invalid anti-replay nonce'')),
                       runNonceOps ops2 s'))"
    if a: "s = runNonceOps ops NewNonceService"
      "verifyPOST wfe s request regCheck = (Return (Inr v), s')"
      "carries wfe request m"
  proof -
    note c = verifyPOST_never_twice(1) [OF a]
    note g = verifyPOST_never_twice(2) [OF a, where ?ops2.0 = ops2]
    note r = verifyPOST_never_twice(3) [OF a, where ?ops2.0 = ops2]
    from c g r [OF a(3), where regCheck' = regCheck] r [where regCheck' = regCheck']
    show ?thesis
      by (simp add: Valid_not_outstanding)
  qed
  have unknown: "token \<notin> set (outstanding ns') \<longrightarrow> NonceService_Valid ns' token = (False, ns')"
    by (simp add: Valid_not_outstanding)
  from first gone again accept twice unknown show ?thesis
    by blast
qed

theorem nonce_single_use_witness:
  "(\<exists>reg. verifyPOST exampleWFE (runNonceOps [Issue, Consume ''zz''] exampleNonces)
            (examplePOST ''/acme/new-authz'' [] ''{}'') True
          = (Return (Inr (''{}'', ''key-A'', reg)),
             consumed ''n'' (runNonceOps [Issue, Consume ''zz''] exampleNonces)))
   \<and> NonceService_Valid
         (runNonceOps [Issue, Consume ''n'']
            (consumed ''n'' (runNonceOps [Issue, Consume ''zz''] exampleNonces))) ''n''
       = (False, runNonceOps [Issue, Consume ''n'']
            (consumed ''n'' (runNonceOps [Issue, Consume ''zz''] exampleNonces)))
   \<and> verifyPOST exampleWFE
         (runNonceOps [Issue, Consume ''n'']
            (consumed ''n'' (runNonceOps [Issue, Consume ''zz''] exampleNonces)))
         (examplePOST ''/acme/new-authz'' [] ''{}'') True
       = (Return (Inl (errors_New ''JWS has invalid anti-replay nonce'')),
          runNonceOps [Issue, Consume ''n'']
            (consumed ''n'' (runNonceOps [Issue, Consume ''zz''] exampleNonces)))"
proof -
  let ?req = "examplePOST ''/acme/new-authz'' [] ''{}''"
  let ?sg = "\<lparr>Header_JsonWebKey = Some ''key-A'', sig_Signature = ''sig''\<rparr>"
  let ?jws = "\<lparr>jws_payload = ''{}'', Signatures = [?sg]\<rparr>"
  let ?ns = "runNonceOps [Issue, Consume ''zz''] exampleNonces"
  have a1: "NewNonceService = runNonceOps [] NewNonceService"
    by (simp add: runNonceOps_def)
  have a2: "NonceService_Nonce NewNonceService = (''n'', exampleNonces)"
    by (simp add: example_defs)
  have a3: "Consume ''n'' \<notin> set [Issue, Consume ''zz'']"
    by simp
  have env: "Body ?req = BodyBytes ''{}''
         \<and> jose_ParseSigned (lib exampleWFE) ''{}'' = Inr ?jws
         \<and> Signatures ?jws = [?sg]
         \<and> Header_JsonWebKey ?sg = Some ''key-A''
         \<and> jose_Verify (lib exampleWFE) ?jws (Some ''key-A'') = Inr (''{}'', \<lparr>Nonce = ''n''\<rparr>)
         \<and> Nonce \<lparr>Nonce = ''n''\<rparr> = ''n''
         \<and> (True \<longrightarrow> (\<exists>reg. GetRegistrationByKey (SA exampleWFE) ''key-A'' = Inr reg))"
    by (simp add: example_defs)
  have reach: "?ns = runNonceOps [Issue, Issue, Consume ''zz''] NewNonceService"
    by (simp add: runNonceOps_def exampleNonces_def)
  have acc: "verifyPOST exampleWFE ?ns ?req True
               = (Return (Inr (''{}'', ''key-A'', exampleReg)), consumed ''n'' ?ns)"
    by (simp add: verifyPOST_def consumed_def runNonceOps_def example_defs)
  have car: "carries exampleWFE ?req ''n''"
    by (simp add: carries_def example_defs)
  note T = nonce_single_use [OF a1 a2 a3 refl,
      where ?ops2.0 = "[Issue, Consume ''n'']" and request = ?req and wfe = exampleWFE
        and regCheck = True and b = "''{}''" and jws = ?jws and sg = ?sg and k = "''key-A''"
        and payload = "''{}''" and header = "\<lparr>Nonce = ''n''\<rparr>"
        and ops = "[Issue, Issue, Consume ''zz'']" and s = ?ns
        and s' = "consumed ''n'' ?ns" and m = "''n''"
        and v = "(''{}'', ''key-A'', exampleReg)"]
  from T env reach acc car show ?thesis
    by blast
qed

subsection \<open>Revocation\<close>

text \<open>The calls of the revocation handler to the Authority, branch by branch.\<close>

lemma RevokeCertificate_raCalls:
  "raCalls (RevokeCertificate wfe request s0) =
     raCalls s0 @
       (case verifyPOST wfe (nonceService (sendStandardHeaders s0)) request False of
          (Return (Inr (body, requestKey, registration)), ns) \<Rightarrow>
            (case json_Unmarshal_RevokeRequest (lib wfe) body of
               Inr revokeRequest \<Rightarrow>
                 (case x509_ParseCertificate (lib wfe) (CertificateDER revokeRequest) of
                    Inr providedCert \<Rightarrow>
                      (case GetCertificate (SA wfe)
                              (core_SerialToString (lib wfe) (SerialNumber providedCert)) of
                         Inr cert \<Rightarrow>
                           (case GetCertificateStatus (SA wfe)
                                   (core_SerialToString (lib wfe) (SerialNumber providedCert)) of
                              Inr certStatus \<Rightarrow>
                                if Method request = ''POST''
                                   \<and> cert_DER cert = CertificateDER revokeRequest
                                   \<and> Status certStatus \<noteq> OCSPStatusRevoked
                                   \<and> (core_KeyDigestEquals (lib wfe) requestKey
                                         (x509_PublicKey providedCert)
                                       \<or> reg_ID registration = cert_RegistrationID cert)
                                then [CallRevokeCertificate providedCert]
                                else []
                            | Inl err \<Rightarrow> [])
                       | Inl err \<Rightarrow> [])
                  | Inl err \<Rightarrow> [])
             | Inl err \<Rightarrow> [])
        | _ \<Rightarrow> [])"
  by (auto simp: RevokeCertificate_def Let_def verifyPOST_call_def
           split: prod.splits outcome.splits sum.splits option.splits)

text \<open>The status of the revocation handler's answer once the stored certificate is found.\<close>

lemma RevokeCertificate_Code:
  assumes "Method request = ''POST''"
      and "verifyPOST wfe (nonceService (sendStandardHeaders s0)) request False
             = (Return (Inr (body, requestKey, registration)), ns)"
      and "json_Unmarshal_RevokeRequest (lib wfe) body = Inr revokeRequest"
      and "x509_ParseCertificate (lib wfe) (CertificateDER revokeRequest) = Inr providedCert"
      and "GetCertificate (SA wfe) (core_SerialToString (lib wfe) (SerialNumber providedCert))
             = Inr cert"
      and "cert_DER cert = CertificateDER revokeRequest"
      and "Code (response s0) = None"
  shows "Code (response (RevokeCertificate wfe request s0)) =
           Some (case GetCertificateStatus (SA wfe)
                        (core_SerialToString (lib wfe) (SerialNumber providedCert)) of
                   Inl err \<Rightarrow> StatusNotFound
                 | Inr certStatus \<Rightarrow>
                     if Status certStatus = OCSPStatusRevoked then StatusConflict
                     else if \<not> (core_KeyDigestEquals (lib wfe) requestKey
                                   (x509_PublicKey providedCert)
                                 \<or> reg_ID registration = cert_RegistrationID cert)
                       then StatusForbidden
                     else (case RA_RevokeCertificate (RA wfe) providedCert of
                             Some err \<Rightarrow> statusCodeFromError err
                           | None \<Rightarrow> StatusOK))"
  using assms
  by (auto simp: RevokeCertificate_def Let_def verifyPOST_call_def
           split: sum.splits option.splits)

text \<open>
  C3. For a revocation request whose envelope verifies and whose payload matches
  a stored certificate, the revocation is delegated to the Authority only if the request key
  matches the certificate's public key or the signer's account id equals the certificate's
  owning account id. For every other requester no revocation call is made, and the answer is
  Forbidden whenever the certificate's status is available and not already revoked.
\<close>

theorem RevokeCertificate_authorization:
  assumes "Method request = ''POST''"
      and "verifyPOST wfe (nonceService (sendStandardHeaders s0)) request False
             = (Return (Inr (body, requestKey, registration)), ns)"
      and "json_Unmarshal_RevokeRequest (lib wfe) body = Inr revokeRequest"
      and "x509_ParseCertificate (lib wfe) (CertificateDER revokeRequest) = Inr providedCert"
      and "GetCertificate (SA wfe) (core_SerialToString (lib wfe) (SerialNumber providedCert))
             = Inr cert"
      and "cert_DER cert = CertificateDER revokeRequest"
      and "Code (response s0) = None"
  shows "(raCalls (RevokeCertificate wfe request s0) \<noteq> raCalls s0 \<longrightarrow>
            core_KeyDigestEquals (lib wfe) requestKey (x509_PublicKey providedCert)
            \<or> reg_ID registration = cert_RegistrationID cert)
         \<and> (\<not> (core_KeyDigestEquals (lib wfe) requestKey (x509_PublicKey providedCert)
                 \<or> reg_ID registration = cert_RegistrationID cert) \<longrightarrow>
              raCalls (RevokeCertificate wfe request s0) = raCalls s0
              \<and> (\<forall>certStatus.
                    GetCertificateStatus (SA wfe)
                        (core_SerialToString (lib wfe) (SerialNumber providedCert))
                      = Inr certStatus
                    \<and> Status certStatus \<noteq> OCSPStatusRevoked \<longrightarrow>
                    Code (response (RevokeCertificate wfe request s0)) = Some StatusForbidden))"
  using assms
  by (auto simp: RevokeCertificate_raCalls RevokeCertificate_Code split: sum.splits)

lemma example_revoke_verifyPOST:
  "verifyPOST exampleWFE (nonceService (sendStandardHeaders (initState exampleNonces)))
     (examplePOST ''/acme/revoke-cert'' [] ''DER'') False
   = (Return (Inr (''DER'', ''key-A'', exampleReg)), \<lparr>issued = 2, outstanding = [''nn'']\<rparr>)"
  by (simp add: verifyPOST_def example_defs)

theorem RevokeCertificate_authorization_witness:
  "raCalls (RevokeCertificate exampleWFE (examplePOST ''/acme/revoke-cert'' [] ''DER'')
      (initState exampleNonces)) = []
   \<and> Code (response (RevokeCertificate exampleWFE (examplePOST ''/acme/revoke-cert'' [] ''DER'')
      (initState exampleNonces))) = Some StatusForbidden"
proof -
  let ?req = "examplePOST ''/acme/revoke-cert'' [] ''DER''"
  let ?x = "\<lparr>SerialNumber = 3, x509_PublicKey = ''key-C'', Raw = ''DER''\<rparr>"
  let ?cert = "\<lparr>cert_RegistrationID = 9, cert_DER = ''DER''\<rparr>"
  have m: "Method ?req = ''POST''"
    by (simp add: examplePOST_def)
  have u: "json_Unmarshal_RevokeRequest (lib exampleWFE) ''DER'' = Inr \<lparr>CertificateDER = ''DER''\<rparr>"
    by (simp add: example_defs)
  have x: "x509_ParseCertificate (lib exampleWFE) (CertificateDER \<lparr>CertificateDER = ''DER''\<rparr>)
            = Inr ?x"
    by (simp add: example_defs)
  have g: "GetCertificate (SA exampleWFE) (core_SerialToString (lib exampleWFE) (SerialNumber ?x))
            = Inr ?cert"
    by (simp add: example_defs eval_nat_numeral)
  have d: "cert_DER ?cert = CertificateDER \<lparr>CertificateDER = ''DER''\<rparr>"
    by simp
  have c: "Code (response (initState exampleNonces)) = None"
    by (simp add: example_defs)
  have n: "\<not> (core_KeyDigestEquals (lib exampleWFE) ''key-A'' (x509_PublicKey ?x)
             \<or> reg_ID exampleReg = cert_RegistrationID ?cert)"
    by (simp add: example_defs)
  have st: "GetCertificateStatus (SA exampleWFE)
               (core_SerialToString (lib exampleWFE) (SerialNumber ?x))
             = Inr \<lparr>Status = OCSPStatusGood\<rparr>
            \<and> Status \<lparr>Status = OCSPStatusGood\<rparr> \<noteq> OCSPStatusRevoked"
    by (simp add: example_defs)
  have e: "raCalls (initState exampleNonces) = []"
    by (simp add: initState_def)
  from RevokeCertificate_authorization [OF m example_revoke_verifyPOST u x g d c] n st e
  show ?thesis
    by metis
qed

text \<open>
  A requester who is neither the holder of the certificate's key nor its owning account,
  and a certificate that is already revoked: the answer is Conflict, not Forbidden.
\<close>

theorem RevokeCertificate_revoked_counterexample:
  "verifyPOST exampleWFE_revoked
       (nonceService (sendStandardHeaders (initState exampleNonces)))
       (examplePOST ''/acme/revoke-cert'' [] ''DER'') False
     = (Return (Inr (''DER'', ''key-A'', exampleReg)), \<lparr>issued = 2, outstanding = [''nn'']\<rparr>)
   \<and> GetCertificate (SA exampleWFE_revoked) ''111''
       = Inr \<lparr>cert_RegistrationID = 9, cert_DER = ''DER''\<rparr>
   \<and> \<not> core_KeyDigestEquals (lib exampleWFE_revoked) ''key-A'' ''key-C''
   \<and> reg_ID exampleReg \<noteq> 9
   \<and> Code (response (RevokeCertificate exampleWFE_revoked
         (examplePOST ''/acme/revoke-cert'' [] ''DER'') (initState exampleNonces)))
       = Some StatusConflict"
  by (simp add: RevokeCertificate_def Let_def verifyPOST_call_def verifyPOST_def
        example_defs eval_nat_numeral)

text \<open>
  C10. A revocation request signed by a key that storage knows no registration for is
  verified with the zero-valued registration, whose id is 0; once the stored certificate is
  found and not revoked, the revocation is delegated exactly when the signing key matches the
  certificate's public key or the stored certificate's owning account id is 0, and answered
  with Forbidden otherwise.
\<close>

theorem RevokeCertificate_unknown_signer:
  assumes "Method request = ''POST''"
      and "Body request = BodyBytes b"
      and "jose_ParseSigned (lib wfe) b = Inr jws"
      and "Signatures jws = [sg]"
      and "Header_JsonWebKey sg = Some requestKey"
      and "jose_Verify (lib wfe) jws (Some requestKey) = Inr (body, header)"
      and "Nonce header \<noteq> []"
      and "Nonce header \<in> set (outstanding (nonceService (sendStandardHeaders s0)))"
      and "GetRegistrationByKey (SA wfe) requestKey = Inl err"
      and "json_Unmarshal_RevokeRequest (lib wfe) body = Inr revokeRequest"
      and "x509_ParseCertificate (lib wfe) (CertificateDER revokeRequest) = Inr providedCert"
      and "GetCertificate (SA wfe) (core_SerialToString (lib wfe) (SerialNumber providedCert))
             = Inr cert"
      and "cert_DER cert = CertificateDER revokeRequest"
      and "GetCertificateStatus (SA wfe)
               (core_SerialToString (lib wfe) (SerialNumber providedCert)) = Inr certStatus"
      and "Status certStatus \<noteq> OCSPStatusRevoked"
      and "Code (response s0) = None"
  shows "fst (verifyPOST wfe (nonceService (sendStandardHeaders s0)) request False)
           = Return (Inr (body, requestKey, emptyRegistration))
         \<and> reg_ID emptyRegistration = 0
         \<and> (raCalls (RevokeCertificate wfe request s0)
               = raCalls s0 @ [CallRevokeCertificate providedCert]
             \<longleftrightarrow> core_KeyDigestEquals (lib wfe) requestKey (x509_PublicKey providedCert)
                 \<or> cert_RegistrationID cert = 0)
         \<and> (\<not> (core_KeyDigestEquals (lib wfe) requestKey (x509_PublicKey providedCert)
                 \<or> cert_RegistrationID cert = 0) \<longrightarrow>
              raCalls (RevokeCertificate wfe request s0) = raCalls s0
              \<and> Code (response (RevokeCertificate wfe request s0)) = Some StatusForbidden)"
proof -
  have v: "verifyPOST wfe (nonceService (sendStandardHeaders s0)) request False
             = (Return (Inr (body, requestKey, emptyRegistration)),
                consumed (Nonce header) (nonceService (sendStandardHeaders s0)))"
    using verifyPOST_accepts [OF assms(2-8), of False] assms(9)
    by simp
  have z: "reg_ID emptyRegistration = 0"
    by (simp add: emptyRegistration_def)
  from v z assms(1,10-16) show ?thesis
    by (auto simp: RevokeCertificate_raCalls RevokeCertificate_Code)
qed

theorem RevokeCertificate_unknown_signer_witness:
  "fst (verifyPOST exampleWFE_unknownSigner
         (nonceService (sendStandardHeaders (initState exampleNonces)))
         (examplePOST ''/acme/revoke-cert'' [] ''DER'') False)
     = Return (Inr (''DER'', ''key-A'', emptyRegistration))
   \<and> reg_ID emptyRegistration = 0
   \<and> \<not> core_KeyDigestEquals (lib exampleWFE_unknownSigner) ''key-A'' ''key-C''
   \<and> raCalls (RevokeCertificate exampleWFE_unknownSigner
         (examplePOST ''/acme/revoke-cert'' [] ''DER'') (initState exampleNonces))
       = [CallRevokeCertificate \<lparr>SerialNumber = 3, x509_PublicKey = ''key-C'', Raw = ''DER''\<rparr>]"
proof -
  let ?wfe = exampleWFE_unknownSigner
  let ?req = "examplePOST ''/acme/revoke-cert'' [] ''DER''"
  let ?sg = "\<lparr>Header_JsonWebKey = Some ''key-A'', sig_Signature = ''sig''\<rparr>"
  let ?jws = "\<lparr>jws_payload = ''DER'', Signatures = [?sg]\<rparr>"
  let ?x = "\<lparr>SerialNumber = 3, x509_PublicKey = ''key-C'', Raw = ''DER''\<rparr>"
  let ?cert = "\<lparr>cert_RegistrationID = 0, cert_DER = ''DER''\<rparr>"
  have m: "Method ?req = ''POST''"
    by (simp add: examplePOST_def)
  have b: "Body ?req = BodyBytes ''DER''"
    by (simp add: examplePOST_def)
  have p: "jose_ParseSigned (lib ?wfe) ''DER'' = Inr ?jws"
    by (simp add: example_defs)
  have s: "Signatures ?jws = [?sg]"
    by simp
  have k: "Header_JsonWebKey ?sg = Some ''key-A''"
    by simp
  have v: "jose_Verify (lib ?wfe) ?jws (Some ''key-A'') = Inr (''DER'', \<lparr>Nonce = ''n''\<rparr>)"
    by (simp add: example_defs)
  have n1: "Nonce \<lparr>Nonce = ''n''\<rparr> \<noteq> []"
    by simp
  have n2: "Nonce \<lparr>Nonce = ''n''\<rparr>
              \<in> set (outstanding (nonceService (sendStandardHeaders (initState exampleNonces))))"
    by (simp add: example_defs)
  have g: "GetRegistrationByKey (SA ?wfe) ''key-A'' = Inl ErrNoRows"
    by (simp add: example_defs)
  have u: "json_Unmarshal_RevokeRequest (lib ?wfe) ''DER'' = Inr \<lparr>CertificateDER = ''DER''\<rparr>"
    by (simp add: example_defs)
  have x: "x509_ParseCertificate (lib ?wfe) (CertificateDER \<lparr>CertificateDER = ''DER''\<rparr>) = Inr ?x"
    by (simp add: example_defs)
  have c: "GetCertificate (SA ?wfe) (core_SerialToString (lib ?wfe) (SerialNumber ?x)) = Inr ?cert"
    by (simp add: example_defs eval_nat_numeral)
  have d: "cert_DER ?cert = CertificateDER \<lparr>CertificateDER = ''DER''\<rparr>"
    by simp
  have st: "GetCertificateStatus (SA ?wfe) (core_SerialToString (lib ?wfe) (SerialNumber ?x))
              = Inr \<lparr>Status = OCSPStatusGood\<rparr>"
    by (simp add: example_defs)
  have nr: "Status \<lparr>Status = OCSPStatusGood\<rparr> \<noteq> OCSPStatusRevoked"
    by simp
  have c0: "Code (response (initState exampleNonces)) = None"
    by (simp add: example_defs)
  have e: "raCalls (initState exampleNonces) = []"
    by (simp add: initState_def)
  have nk: "\<not> core_KeyDigestEquals (lib ?wfe) ''key-A'' ''key-C''"
    by (simp add: example_defs)
  from RevokeCertificate_unknown_signer [OF m b p s k v n1 n2 g u x c d st nr c0] e nk
  show ?thesis
    by simp
qed

subsection \<open>Account update\<close>

text \<open>The calls of the account-update handler to the Authority, branch by branch.\<close>

lemma Registration_raCalls:
  "raCalls (Registration wfe request s0) =
     raCalls s0 @
       (case verifyPOST wfe (nonceService (sendStandardHeaders s0)) request True of
          (Return (Inr (body, k, currReg)), ns) \<Rightarrow>
            (case json_Unmarshal_Registration (lib wfe) body of
               Inr update \<Rightarrow>
                 if Method request = ''POST''
                    \<and> ParseInt (parseIDFromPath (Path (req_URL request))) = Inr (reg_ID currReg)
                    \<and> 0 < reg_ID currReg
                    \<and> (reg_Agreement update = [] \<or> reg_Agreement update = SubscriberAgreementURL wfe)
                 then [CallUpdateRegistration currReg (update\<lparr>reg_Key := reg_Key currReg\<rparr>)]
                 else []
             | Inl err \<Rightarrow> [])
        | _ \<Rightarrow> [])"
  by (auto simp: Registration_def Let_def verifyPOST_call_def
           split: prod.splits outcome.splits sum.splits)

text \<open>
  C4. Every call the account-update handler makes to the Authority hands over the signer's
  registration, as storage returned it for the verified key, and the update decoded from the
  payload with its key field overwritten by that registration's key, whatever key the
  payload carried.
\<close>

theorem Registration_keeps_key:
  assumes "c \<in> set (raCalls (Registration wfe request s0))"
      and "c \<notin> set (raCalls s0)"
  shows "\<exists>body k currReg ns payloadUpdate.
           verifyPOST wfe (nonceService (sendStandardHeaders s0)) request True
             = (Return (Inr (body, k, currReg)), ns)
           \<and> GetRegistrationByKey (SA wfe) k = Inr currReg
           \<and> json_Unmarshal_Registration (lib wfe) body = Inr payloadUpdate
           \<and> c = CallUpdateRegistration currReg (payloadUpdate\<lparr>reg_Key := reg_Key currReg\<rparr>)
           \<and> reg_Key (payloadUpdate\<lparr>reg_Key := reg_Key currReg\<rparr>) = reg_Key currReg
           \<and> raCalls (Registration wfe request s0) = raCalls s0 @ [c]"
proof -
  obtain r ns where v: "verifyPOST wfe (nonceService (sendStandardHeaders s0)) request True = (r, ns)"
    by (cases "verifyPOST wfe (nonceService (sendStandardHeaders s0)) request True")
  from assms v obtain body k currReg where r: "r = Return (Inr (body, k, currReg))"
    unfolding Registration_raCalls
    by (cases r; auto split: sum.splits prod.splits)
  from v r have lk: "GetRegistrationByKey (SA wfe) k = Inr currReg"
    using verifyPOST_regCheck_lookup by (metis sendStandardHeaders_simps(2))
  from assms v r obtain u where u: "json_Unmarshal_Registration (lib wfe) body = Inr u"
    unfolding Registration_raCalls
    by (cases "json_Unmarshal_Registration (lib wfe) body"; simp)
  from assms v r u have "c = CallUpdateRegistration currReg (u\<lparr>reg_Key := reg_Key currReg\<rparr>)
        \<and> raCalls (Registration wfe request s0) = raCalls s0 @ [c]"
    unfolding Registration_raCalls
    by (simp split: if_splits)
  with v r lk u show ?thesis
    by simp
qed

lemma example_Registration_raCalls:
  "raCalls (Registration exampleWFE (examplePOST ''/acme/reg/7'' [] ''{}'') (initState exampleNonces))
     = [CallUpdateRegistration exampleReg
          \<lparr>reg_ID = 0, reg_Key = ''key-A'', reg_Contact = [''{}''], reg_Agreement = []\<rparr>]"
  by (simp add: Registration_raCalls)
     (simp add: verifyPOST_def parseIDFromPath_def ParseInt_def isDigit_def example_defs)

theorem Registration_keeps_key_witness:
  "\<exists>body k currReg ns payloadUpdate.
     verifyPOST exampleWFE (nonceService (sendStandardHeaders (initState exampleNonces)))
         (examplePOST ''/acme/reg/7'' [] ''{}'') True
       = (Return (Inr (body, k, currReg)), ns)
     \<and> GetRegistrationByKey (SA exampleWFE) k = Inr currReg
     \<and> json_Unmarshal_Registration (lib exampleWFE) body = Inr payloadUpdate
     \<and> reg_Key payloadUpdate = ''key-B''
     \<and> reg_Key currReg = ''key-A''
     \<and> raCalls (Registration exampleWFE (examplePOST ''/acme/reg/7'' [] ''{}'')
           (initState exampleNonces))
         = [CallUpdateRegistration currReg (payloadUpdate\<lparr>reg_Key := ''key-A''\<rparr>)]"
proof -
  let ?c = "CallUpdateRegistration exampleReg
          \<lparr>reg_ID = 0, reg_Key = ''key-A'', reg_Contact = [''{}''], reg_Agreement = []\<rparr>"
  let ?req = "examplePOST ''/acme/reg/7'' [] ''{}''"
  have a: "?c \<in> set (raCalls (Registration exampleWFE ?req (initState exampleNonces)))"
    by (simp add: example_Registration_raCalls)
  have b: "?c \<notin> set (raCalls (initState exampleNonces))"
    by (simp add: initState_def)
  from Registration_keeps_key [OF a b] obtain body k currReg ns payloadUpdate where
    w: "verifyPOST exampleWFE (nonceService (sendStandardHeaders (initState exampleNonces)))
         ?req True = (Return (Inr (body, k, currReg)), ns)"
       "GetRegistrationByKey (SA exampleWFE) k = Inr currReg"
       "json_Unmarshal_Registration (lib exampleWFE) body = Inr payloadUpdate"
       "?c = CallUpdateRegistration currReg (payloadUpdate\<lparr>reg_Key := reg_Key currReg\<rparr>)"
    by blast
  from w(1) have "k = ''key-A''" "body = ''{}''"
    by (simp_all add: verifyPOST_def example_defs)
  with w(2,3) have "reg_Key currReg = ''key-A''" "reg_Key payloadUpdate = ''key-B''"
    by (auto simp: example_defs)
  with w show ?thesis
    by (simp add: example_Registration_raCalls)
qed

text \<open>
  C6. For a verified account-update request, the front end checks the trailing
  path segment before any call to the Authority and whatever the Authority is: a segment that
  is not an integer, or an integer that is not positive, is answered with BadRequest; a
  positive integer that differs from the signer's account id is answered with Forbidden.
\<close>

theorem Registration_path_id_check:
  assumes "Method request = ''POST''"
      and "verifyPOST wfe (nonceService (sendStandardHeaders s0)) request True
             = (Return (Inr (body, k, currReg)), ns)"
      and "Code (response s0) = None"
      and "ParseInt (parseIDFromPath (Path (req_URL request))) \<noteq> Inr (reg_ID currReg)
           \<or> reg_ID currReg \<le> 0"
  shows "Code (response (Registration wfe request s0)) =
           Some (case ParseInt (parseIDFromPath (Path (req_URL request))) of
                   Inl err \<Rightarrow> StatusBadRequest
                 | Inr pathID \<Rightarrow> if pathID \<le> 0 then StatusBadRequest else StatusForbidden)
         \<and> raCalls (Registration wfe request s0) = raCalls s0
         \<and> Registration (wfe\<lparr>RA := ra\<rparr>) request s0 = Registration wfe request s0"
  using assms
  by (auto simp: Registration_def Let_def verifyPOST_call_def split: sum.splits)

theorem Registration_path_id_check_witness:
  "Code (response (Registration exampleWFE (examplePOST ''/acme/reg/8'' [] ''{}'')
           (initState exampleNonces))) = Some StatusForbidden
   \<and> raCalls (Registration exampleWFE (examplePOST ''/acme/reg/8'' [] ''{}'')
           (initState exampleNonces)) = []"
proof -
  let ?req = "examplePOST ''/acme/reg/8'' [] ''{}''"
  have m: "Method ?req = ''POST''"
    by (simp add: examplePOST_def)
  have c: "Code (response (initState exampleNonces)) = None"
    by (simp add: example_defs)
  have p: "ParseInt (parseIDFromPath (Path (req_URL ?req))) = Inr 8"
    by (simp add: parseIDFromPath_def ParseInt_def isDigit_def examplePOST_def)
  have d: "ParseInt (parseIDFromPath (Path (req_URL ?req))) \<noteq> Inr (reg_ID exampleReg)
           \<or> reg_ID exampleReg \<le> 0"
    by (simp add: p) (simp add: exampleReg_def)
  from Registration_path_id_check [OF m example_verifyPOST c d, of "RA exampleWFE"] p
  show ?thesis
    by (simp add: initState_def)
qed

text \<open>A trailing path segment that is not an integer: the answer is BadRequest.\<close>

theorem Registration_non_integer_id_counterexample:
  "Code (response (Registration exampleWFE (examplePOST ''/acme/reg/abc'' [] ''{}'')
           (initState exampleNonces))) = Some StatusBadRequest
   \<and> Code (response (Registration exampleWFE (examplePOST ''/acme/reg/abc'' [] ''{}'')
           (initState exampleNonces))) \<noteq> Some StatusForbidden"
  by (simp add: Registration_def Let_def verifyPOST_call_def verifyPOST_def
        parseIDFromPath_def ParseInt_def isDigit_def example_defs)

subsection \<open>Challenges\<close>

text \<open>
  C5. A verified POST to a challenge URI whose signer's account id differs from the
  authorization's owning account id is answered with Forbidden, and the Authority's update
  operation is not called; a call to the Authority implies that the two ids are equal.
\<close>

theorem challenge_owner_check:
  assumes "Method request = ''POST''"
      and "findChallenge (authz_Challenges authz) (req_URL request) 0 = Some i"
      and "verifyPOST wfe (nonceService (sendStandardHeaders s0)) request True
             = (Return (Inr (body, k, currReg)), ns)"
      and "Code (response s0) = None"
  shows "(reg_ID currReg \<noteq> authz_RegistrationID authz \<longrightarrow>
           Code (response (challenge wfe authz request s0)) = Some StatusForbidden
           \<and> raCalls (challenge wfe authz request s0) = raCalls s0)
         \<and> (raCalls (challenge wfe authz request s0) \<noteq> raCalls s0 \<longrightarrow>
              reg_ID currReg = authz_RegistrationID authz)"
  using assms
  by (simp add: challenge_def Let_def verifyPOST_call_def)

theorem challenge_owner_check_witness:
  "Code (response (challenge exampleWFE (exampleAuthz 8)
       (examplePOST ''/acme/authz/a1'' ''challenge=0'' ''{}'') (initState exampleNonces)))
     = Some StatusForbidden
   \<and> raCalls (challenge exampleWFE (exampleAuthz 8)
       (examplePOST ''/acme/authz/a1'' ''challenge=0'' ''{}'') (initState exampleNonces)) = []"
proof -
  let ?req = "examplePOST ''/acme/authz/a1'' ''challenge=0'' ''{}''"
  have m: "Method ?req = ''POST''"
    by (simp add: examplePOST_def)
  have f: "findChallenge (authz_Challenges (exampleAuthz 8)) (req_URL ?req) 0 = Some 0"
    by (simp add: example_defs)
  have c: "Code (response (initState exampleNonces)) = None"
    by (simp add: example_defs)
  have d: "reg_ID exampleReg \<noteq> authz_RegistrationID (exampleAuthz 8)"
    by (simp add: example_defs)
  have e: "raCalls (initState exampleNonces) = []"
    by (simp add: example_defs)
  from challenge_owner_check [OF m f example_verifyPOST c] d e show ?thesis
    by simp
qed



subsection \<open>Problem documents\<close>

text \<open>
  C8. The type of the problem document for a status code that the switch of
  \<^verbatim>\<open>sendError\<close> does not list: \<^verbatim>\<open>statusCodeFromError\<close> maps a \<^verbatim>\<open>NotSupportedError\<close> of the
  Authority to 501 and a \<^verbatim>\<open>SignatureValidationError\<close> to 412, and for both the type is left
  empty, not set to the server-internal type. So a certificate request that the Authority
  answers with a \<^verbatim>\<open>NotSupportedError\<close> gets a problem document without a type (the example
  serialisation writes the type, a space and the detail).
\<close>

theorem sendError_problem_unlisted_code:
  "statusCodeFromError (NotSupportedError m) = StatusNotImplemented
   \<and> Type (sendError_problem details (statusCodeFromError (NotSupportedError m))) = []
   \<and> statusCodeFromError (SignatureValidationError m) = StatusPreconditionFailed
   \<and> Type (sendError_problem details (statusCodeFromError (SignatureValidationError m))) = []
   \<and> Type (sendError_problem details StatusInternalServerError) = ServerInternalProblem
   \<and> Code (response (NewCertificate exampleWFE_notSupported
         (examplePOST ''/acme/new-cert'' [] ''{}'') (initState exampleNonces)))
       = Some StatusNotImplemented
   \<and> Written (response (NewCertificate exampleWFE_notSupported
         (examplePOST ''/acme/new-cert'' [] ''{}'') (initState exampleNonces)))
       = '' Error creating new cert''"
  by (simp add: sendError_problem_def NewCertificate_def Let_def verifyPOST_call_def
        verifyPOST_def sendError_def example_defs)

subsection \<open>Hexadecimal rendering\<close>








subsection \<open>The location of an issued certificate\<close>

lemma Header_Values_Add [simp]:
  "Header_Values k (Header_Add k' v r) = Header_Values k r @ (if k' = k then [v] else [])"
  by (simp add: Header_Values_def Header_Add_def)

lemma Header_Values_Set [simp]:
  "Header_Values k (Header_Set k' v r) = (if k' = k then [v] else Header_Values k r)"
proof (cases "k' = k")
  case True
  then show ?thesis
    by (simp add: Header_Values_def Header_Set_def filter_empty_conv)
next
  case False
  then have "filter (\<lambda>kv. fst kv \<noteq> k' \<and> fst kv = k) xs = filter (\<lambda>kv. fst kv = k) xs" for xs :: "(string \<times> string) list"
    by (intro filter_cong) auto
  with False show ?thesis
    by (simp add: Header_Values_def Header_Set_def)
qed

lemma Header_Values_Write [simp]:
  "Header_Values k (WriteHeader c r) = Header_Values k r"
  "Header_Values k (Write b r) = Header_Values k r"
  by (simp_all add: Header_Values_def WriteHeader_def Write_def Let_def split: option.splits)

lemma sendStandardHeaders_Location [simp]:
  "Header_Values ''Location'' (response (sendStandardHeaders s))
     = Header_Values ''Location'' (response s)"
  by (simp add: sendStandardHeaders_def Let_def split: prod.splits)


subsection \<open>Reading the short identifier back\<close>









lemma HandlePaths_CertBase [simp]:
  "CertBase (HandlePaths wfe) = BaseURL wfe @ CertPath"
  "BaseURL (HandlePaths wfe) = BaseURL wfe"
  by (simp_all add: HandlePaths_def)









end
